theory Spec2Isabelle
  imports Complex_Main
begin

section \<open>JavaScript values and handlers\<close>

text \<open>
  The dashboard script \<^verbatim>\<open>funcionalidades.js\<close> reads decoded JSON and writes the
  \<^verbatim>\<open>textContent\<close> of page elements. A decoded payload is a \<open>json\<close> value; an object
  lists its own properties in enumeration order and a property is read with \<open>map_of\<close>.
  \<^verbatim>\<open>undefined\<close> is \<open>None\<close> of \<open>json option\<close>.
\<close>

datatype json =
    JNull
  | JBool bool
  | JNum rat
  | JStr string
  | JArr "json list"
  | JObj "(string \<times> json) list"

datatype exn = SyntaxError | TypeError | HttpError nat

text \<open>What \<^verbatim>\<open>if (v)\<close>, \<^verbatim>\<open>!v\<close> and \<^verbatim>\<open>v || d\<close> test.\<close>

fun truthy :: "json \<Rightarrow> bool" where
  "truthy JNull = False"
| "truthy (JBool b) = b"
| "truthy (JNum n) = (n \<noteq> 0)"
| "truthy (JStr s) = (s \<noteq> [])"
| "truthy (JArr xs) = True"
| "truthy (JObj kvs) = True"

fun truthy_opt :: "json option \<Rightarrow> bool" where
  "truthy_opt None = False"
| "truthy_opt (Some v) = truthy v"

text \<open>
  \<^verbatim>\<open>v.k\<close>: reading a property of \<^verbatim>\<open>undefined\<close> or \<^verbatim>\<open>null\<close> raises a TypeError; an
  object gives its property or \<^verbatim>\<open>undefined\<close>. None of the property names the script
  reads (\<^verbatim>\<open>system\<close>, \<^verbatim>\<open>queue\<close>, \<^verbatim>\<open>workers\<close>, \<^verbatim>\<open>cpu_percent\<close>, ...) is a built-in
  property of a number, string, boolean or array, so there the result is \<^verbatim>\<open>undefined\<close>.
  \<^verbatim>\<open>v?.k\<close> gives \<^verbatim>\<open>undefined\<close> where \<^verbatim>\<open>v.k\<close> would raise.
\<close>

fun member :: "json option \<Rightarrow> string \<Rightarrow> exn + json option" where
  "member None k = Inl TypeError"
| "member (Some JNull) k = Inl TypeError"
| "member (Some (JObj kvs)) k = Inr (map_of kvs k)"
| "member (Some v) k = Inr None"

fun opt_member :: "json option \<Rightarrow> string \<Rightarrow> exn + json option" where
  "opt_member None k = Inr None"
| "opt_member (Some JNull) k = Inr None"
| "opt_member (Some v) k = member (Some v) k"

text \<open>\<^verbatim>\<open>x || d\<close>\<close>

fun or_else :: "json option \<Rightarrow> json \<Rightarrow> json" where
  "or_else None d = d"
| "or_else (Some v) d = (if truthy v then v else d)"

text \<open>An expression that uses the value of another one, which may have raised.\<close>

fun and_then :: "exn + 'a \<Rightarrow> ('a \<Rightarrow> exn + 'b) \<Rightarrow> exn + 'b" where
  "and_then (Inl e) f = Inl e"
| "and_then (Inr v) f = f v"

text \<open>
  The text of an element. Number formatting and the string the DOM makes of a value
  assigned to \<^verbatim>\<open>textContent\<close> are kept symbolic: \<open>ToFixed n d\<close> is \<^verbatim>\<open>n.toFixed(d)\<close>,
  \<open>Shown v\<close> is the string of the value \<open>v\<close>, \<open>Template ts\<close> the concatenation of a
  template literal's parts, \<open>Message e\<close> the message of an exception the engine raised.
\<close>

datatype content =
    Lit string
  | ToFixed rat nat
  | Shown json
  | Template "content list"
  | Message exn

datatype elem =
    MetricCpu
  | MetricRam
  | MetricRamUsed
  | MetricRamTotal
  | MetricTotalTranscriptions
  | MetricQueueWeb
  | MetricQueueGdrive
  | SystemStatus
  | ModelPerformanceList
  | AvgProcessTime

datatype level = Log | Warn | Error

datatype effect =
    SetText elem content
  | Console level
  | Fetch string

text \<open>
  A handler's run: the effects it performed, in order, and the exception that ended it,
  if one did. \<open>seq\<close> is statement sequencing, \<open>try_catch\<close> the \<^verbatim>\<open>try { } catch (e) { }\<close>
  statement, \<open>bindv\<close> evaluates an expression that may raise and hands its value on.
\<close>

type_synonym prog = "effect list \<times> exn option"

definition skip :: prog where
  "skip = ([], None)"

definition throw :: "exn \<Rightarrow> prog" where
  "throw e = ([], Some e)"

definition emit :: "effect \<Rightarrow> prog" where
  "emit x = ([x], None)"

fun seq :: "prog \<Rightarrow> prog \<Rightarrow> prog" where
  "seq (es, Some e) q = (es, Some e)"
| "seq (es, None) q = (es @ fst q, snd q)"

fun steps :: "prog list \<Rightarrow> prog" where
  "steps [] = skip"
| "steps (p # ps) = seq p (steps ps)"

fun try_catch :: "prog \<Rightarrow> (exn \<Rightarrow> prog) \<Rightarrow> prog" where
  "try_catch (es, None) h = (es, None)"
| "try_catch (es, Some e) h = seq (es, None) (h e)"

fun bindv :: "exn + 'a \<Rightarrow> ('a \<Rightarrow> prog) \<Rightarrow> prog" where
  "bindv (Inl e) k = throw e"
| "bindv (Inr v) k = k v"

fun when_truthy :: "json option \<Rightarrow> (json \<Rightarrow> prog) \<Rightarrow> prog" where
  "when_truthy None k = skip"
| "when_truthy (Some v) k = (if truthy v then k v else skip)"

text \<open>\<^verbatim>\<open>if (data.k) { ... }\<close>, the braces running \<open>f\<close> on the value of \<^verbatim>\<open>data.k\<close>.\<close>

definition block :: "json \<Rightarrow> string \<Rightarrow> (json \<Rightarrow> prog) \<Rightarrow> prog" where
  "block data k f = bindv (member (Some data) k) (\<lambda>b. when_truthy b f)"

text \<open>
  \<open>present el\<close> says whether \<^verbatim>\<open>document.getElementById\<close> finds the element.
  \<open>assign\<close> is \<^verbatim>\<open>document.getElementById(id).textContent = rhs\<close>, which raises a
  TypeError on a missing element.
\<close>

definition assign :: "(elem \<Rightarrow> bool) \<Rightarrow> elem \<Rightarrow> exn + content \<Rightarrow> prog" where
  "assign present el rhs =
     (if present el then bindv rhs (\<lambda>t. emit (SetText el t)) else throw TypeError)"

text \<open>\<^verbatim>\<open>if (el) { el.textContent = rhs; }\<close>\<close>

definition assign_if_present :: "(elem \<Rightarrow> bool) \<Rightarrow> elem \<Rightarrow> exn + content \<Rightarrow> prog" where
  "assign_if_present present el rhs =
     (if present el then assign present el rhs else skip)"

text \<open>\<^verbatim>\<open>v.toFixed(d)\<close> exists on numbers only.\<close>

fun toFixed :: "json \<Rightarrow> nat \<Rightarrow> exn + content" where
  "toFixed (JNum n) d = Inr (ToFixed n d)"
| "toFixed v d = Inl TypeError"

text \<open>\<^verbatim>\<open>x !== undefined ? x.toFixed(d) : '--'\<close>\<close>

fun fixed_or_dashes :: "json option \<Rightarrow> nat \<Rightarrow> exn + content" where
  "fixed_or_dashes None d = Inr (Lit ''--'')"
| "fixed_or_dashes (Some v) d = toFixed v d"

text \<open>\<^verbatim>\<open>x !== undefined ? x : 0\<close>, assigned to \<^verbatim>\<open>textContent\<close>.\<close>

fun value_or_zero :: "json option \<Rightarrow> content" where
  "value_or_zero None = Shown (JNum 0)"
| "value_or_zero (Some v) = Shown v"

section \<open>The push channel: \<^verbatim>\<open>connectSSE\<close>\<close>

text \<open>\<^verbatim>\<open>funcionalidades.js\<close>, lines 34 to 108.\<close>

text \<open>The \<^verbatim>\<open>data\<close> of a message event, as \<^verbatim>\<open>JSON.parse\<close> takes it.\<close>

datatype payload = Malformed | Parsed json

text \<open>The block \<^verbatim>\<open>if (data.system) { ... }\<close> of \<^verbatim>\<open>onmessage\<close> (lines 52 to 70).\<close>

definition sse_system :: "(elem \<Rightarrow> bool) \<Rightarrow> json \<Rightarrow> prog" where
  "sse_system present sys = steps
     [ assign_if_present present MetricCpu
         (and_then (member (Some sys) ''cpu_percent'') (\<lambda>x. fixed_or_dashes x 1)),
       assign_if_present present MetricRam
         (and_then (member (Some sys) ''memory_percent'') (\<lambda>x. fixed_or_dashes x 1)),
       assign_if_present present MetricRamUsed
         (and_then (member (Some sys) ''memory_used_gb'') (\<lambda>x. fixed_or_dashes x 2)),
       assign_if_present present MetricRamTotal
         (and_then (member (Some sys) ''memory_total_gb'') (\<lambda>x. fixed_or_dashes x 2)) ]"

text \<open>The block \<^verbatim>\<open>if (data.queue) { ... }\<close> (lines 72 to 86).\<close>

definition sse_queue :: "(elem \<Rightarrow> bool) \<Rightarrow> json \<Rightarrow> prog" where
  "sse_queue present q = steps
     [ assign_if_present present MetricTotalTranscriptions
         (and_then (member (Some q) ''total_transcriptions'') (\<lambda>x. Inr (value_or_zero x))),
       assign_if_present present MetricQueueWeb
         (and_then (member (Some q) ''web_size'') (\<lambda>x. Inr (value_or_zero x))),
       assign_if_present present MetricQueueGdrive
         (and_then (member (Some q) ''gdrive_size'') (\<lambda>x. Inr (value_or_zero x))) ]"

text \<open>\<^verbatim>\<open>data.workers.web?.status || 'Desconhecido'\<close>, for the worker \<open>name\<close>.\<close>

definition worker_status :: "json \<Rightarrow> string \<Rightarrow> exn + json" where
  "worker_status workers name =
     and_then (member (Some workers) name) (\<lambda>w.
     and_then (opt_member w ''status'') (\<lambda>st.
       Inr (or_else st (JStr ''Desconhecido''))))"

text \<open>
  The block \<^verbatim>\<open>if (data.workers && systemStatusEl) { ... }\<close> (lines 88 to 94); \<^verbatim>\<open>===\<close>
  against the string \<^verbatim>\<open>'running'\<close> holds for that string only.
\<close>

definition sse_workers :: "(elem \<Rightarrow> bool) \<Rightarrow> json \<Rightarrow> prog" where
  "sse_workers present workers =
     (if present SystemStatus then
        bindv (worker_status workers ''web'') (\<lambda>webStatus.
        bindv (worker_status workers ''gdrive'') (\<lambda>gdriveStatus.
          emit (SetText SystemStatus
            (if webStatus = JStr ''running'' \<and> gdriveStatus = JStr ''running''
             then Lit ''Operacional'' else Lit ''Problemas''))))
      else skip)"

text \<open>The body of the \<^verbatim>\<open>try\<close> of \<^verbatim>\<open>eventSource.onmessage\<close>.\<close>

definition onmessage_body :: "(elem \<Rightarrow> bool) \<Rightarrow> payload \<Rightarrow> prog" where
  "onmessage_body present p =
     (case p of
        Malformed \<Rightarrow> throw SyntaxError
      | Parsed data \<Rightarrow> steps
          [ emit (Console Log),
            block data ''system'' (sse_system present),
            block data ''queue'' (sse_queue present),
            block data ''workers'' (sse_workers present) ])"

text \<open>\<^verbatim>\<open>eventSource.onmessage\<close>: the \<^verbatim>\<open>catch\<close> logs the exception with \<^verbatim>\<open>console.error\<close>.\<close>

definition onmessage :: "(elem \<Rightarrow> bool) \<Rightarrow> payload \<Rightarrow> prog" where
  "onmessage present p = try_catch (onmessage_body present p) (\<lambda>e. emit (Console Error))"

text \<open>
  The status text written by \<^verbatim>\<open>onerror\<close>, "Erro na conexao" with a tilde on the last a
  (code 0xE3).
\<close>

definition Erro_na_conexao :: content where
  "Erro_na_conexao = Lit (''Erro na conex'' @ [CHR 0xE3] @ ''o'')"

text \<open>\<^verbatim>\<open>eventSource.onerror\<close> (lines 101 to 107).\<close>

definition onerror :: "(elem \<Rightarrow> bool) \<Rightarrow> prog" where
  "onerror present = steps
     [ emit (Console Error),
       assign_if_present present SystemStatus (Inr Erro_na_conexao) ]"

section \<open>The polled channel: \<^verbatim>\<open>updateDashboardCards\<close>\<close>

text \<open>\<^verbatim>\<open>funcionalidades.js\<close>, lines 111 to 183.\<close>

text \<open>
  What \<^verbatim>\<open>await fetch(...)\<close> and \<^verbatim>\<open>await response.json()\<close> give: the request fails, or
  a response arrives with a status and a body that is JSON or not.
\<close>

datatype body = NotJson | Json json

datatype response = NetworkFailure | Response nat body

text \<open>\<^verbatim>\<open>response.ok\<close>\<close>

definition ok :: "nat \<Rightarrow> bool" where
  "ok status = (200 \<le> status \<and> status \<le> 299)"

text \<open>Decimal digits of a number, for array indices used as keys.\<close>

fun show_nat :: "nat \<Rightarrow> string" where
  "show_nat n =
     (if n < 10 then [char_of (48 + n)]
      else show_nat (n div 10) @ [char_of (48 + n mod 10)])"

declare show_nat.simps [simp del]

text \<open>
  \<^verbatim>\<open>Object.entries(v)\<close>; an object's keys are distinct and listed in enumeration
  order; an array and a string enumerate their indices.
\<close>

fun entries :: "json \<Rightarrow> (string \<times> json) list" where
  "entries (JObj kvs) = kvs"
| "entries (JArr xs) = zip (map show_nat [0..<length xs]) xs"
| "entries (JStr s) = zip (map show_nat [0..<length s]) (map (\<lambda>c. JStr [c]) s)"
| "entries v = []"

fun collect :: "(exn + 'a) list \<Rightarrow> exn + 'a list" where
  "collect [] = Inr []"
| "collect (Inl e # xs) = Inl e"
| "collect (Inr v # xs) = and_then (collect xs) (\<lambda>vs. Inr (v # vs))"

text \<open>One \<^verbatim>\<open><li>\<close> of the model list (the a-acute of the last word is code 0xE1).\<close>

definition perf_item :: "string \<times> json \<Rightarrow> exn + content" where
  "perf_item kv =
     and_then (if snd kv \<noteq> JNull then toFixed (snd kv) 2 else Inr (Lit ''--'')) (\<lambda>t.
       Inr (Template
         [ Lit ''<li><strong>'', Lit (fst kv), Lit '':</strong> '', t,
           Lit ('' segundos por minuto de '' @ [CHR 0xE1] @ ''udio</li>'') ]))"

text \<open>
  The item shown when no model has a metric yet; its accented letters are the e of
  "metrica" (code 0xE9) and the i of "disponivel" (code 0xED).
\<close>

definition Nenhuma_metrica :: content where
  "Nenhuma_metrica =
     Lit (''<li>Nenhuma m'' @ [CHR 0xE9] @ ''trica de modelo dispon'' @ [CHR 0xED] @ ''vel ainda.</li>'')"

definition updatePerformanceMetrics :: "(elem \<Rightarrow> bool) \<Rightarrow> json option \<Rightarrow> prog" where
  "updatePerformanceMetrics present metrics =
     (if \<not> truthy_opt metrics \<or> \<not> present ModelPerformanceList \<or> \<not> present AvgProcessTime
      then emit (Console Warn)
      else
        bindv (member metrics ''avg_transcription_speed_per_model'') (\<lambda>speed.
        let avgSpeedPerModel = or_else speed (JObj []) in
        steps
          [ if entries avgSpeedPerModel \<noteq> []
            then bindv (collect (map perf_item (entries avgSpeedPerModel)))
                   (\<lambda>items. emit (SetText ModelPerformanceList (Template items)))
            else emit (SetText ModelPerformanceList Nenhuma_metrica),
            bindv (member metrics ''avg_process_time_sec'') (\<lambda>avgProcessTime.
              case avgProcessTime of
                None \<Rightarrow> emit (SetText AvgProcessTime (Lit ''-- segundos''))
              | Some v \<Rightarrow>
                  if v \<noteq> JNull
                  then bindv (toFixed v 2)
                         (\<lambda>t. emit (SetText AvgProcessTime (Template [t, Lit '' segundos''])))
                  else emit (SetText AvgProcessTime (Lit ''-- segundos''))) ]))"

text \<open>The block \<^verbatim>\<open>if (data.system) { ... }\<close> of \<^verbatim>\<open>updateDashboardCards\<close> (lines 134 to 139).\<close>

definition poll_system :: "(elem \<Rightarrow> bool) \<Rightarrow> json \<Rightarrow> prog" where
  "poll_system present sys = steps
     [ assign present MetricCpu
         (and_then (member (Some sys) ''cpu_percent'') (\<lambda>x. fixed_or_dashes x 1)),
       assign present MetricRam
         (and_then (member (Some sys) ''memory_percent'') (\<lambda>x. fixed_or_dashes x 1)),
       assign present MetricRamUsed
         (and_then (member (Some sys) ''memory_used_gb'') (\<lambda>x. fixed_or_dashes x 2)),
       assign present MetricRamTotal
         (and_then (member (Some sys) ''memory_total_gb'') (\<lambda>x. fixed_or_dashes x 2)) ]"

text \<open>\<^verbatim>\<open>if (data.k !== undefined) { document.getElementById(id).textContent = data.k; }\<close>\<close>

definition poll_field :: "(elem \<Rightarrow> bool) \<Rightarrow> json \<Rightarrow> string \<Rightarrow> elem \<Rightarrow> prog" where
  "poll_field present data k el =
     bindv (member (Some data) k) (\<lambda>x.
       case x of None \<Rightarrow> skip | Some v \<Rightarrow> assign present el (Inr (Shown v)))"

text \<open>
  \<^verbatim>\<open>updateDashboardCards\<close> is an async function. Up to its first \<^verbatim>\<open>await\<close> it logs and
  issues the request; it resumes when the request settles.
\<close>

definition updateDashboardCards_start :: prog where
  "updateDashboardCards_start = steps
     [ emit (Console Log), emit (Fetch ''/api/status/detailed'') ]"

text \<open>The rest of the \<^verbatim>\<open>try\<close> block, from the settled request on.\<close>

definition updateDashboardCards_body :: "(elem \<Rightarrow> bool) \<Rightarrow> response \<Rightarrow> prog" where
  "updateDashboardCards_body present r =
     (case r of
        NetworkFailure \<Rightarrow> throw TypeError
      | Response status b \<Rightarrow>
          if \<not> ok status then throw (HttpError status)
          else
            (case b of
               NotJson \<Rightarrow> throw SyntaxError
             | Json data \<Rightarrow> steps
                 [ emit (Console Log),
                   poll_field present data ''total_transcriptions'' MetricTotalTranscriptions,
                   poll_field present data ''queue_web_size'' MetricQueueWeb,
                   poll_field present data ''queue_gdrive_size'' MetricQueueGdrive,
                   block data ''system'' (poll_system present),
                   bindv (member (Some data) ''metrics'') (updatePerformanceMetrics present) ]))"

text \<open>The \<^verbatim>\<open>catch\<close> block (lines 144 to 152): five cards are set to \<^verbatim>\<open>'Erro'\<close>.\<close>

definition updateDashboardCards_catch :: "(elem \<Rightarrow> bool) \<Rightarrow> exn \<Rightarrow> prog" where
  "updateDashboardCards_catch present e = steps
     [ emit (Console Error),
       assign present MetricTotalTranscriptions (Inr (Lit ''Erro'')),
       assign present MetricQueueWeb (Inr (Lit ''Erro'')),
       assign present MetricQueueGdrive (Inr (Lit ''Erro'')),
       assign present MetricCpu (Inr (Lit ''Erro'')),
       assign present MetricRam (Inr (Lit ''Erro'')) ]"

definition updateDashboardCards_resume :: "(elem \<Rightarrow> bool) \<Rightarrow> response \<Rightarrow> prog" where
  "updateDashboardCards_resume present r =
     try_catch (updateDashboardCards_body present r) (updateDashboardCards_catch present)"

section \<open>The page and the two channels\<close>

text \<open>
  The page maps each element to its text. Performing the effects of a handler run
  rewrites it, one assignment after the other.
\<close>

type_synonym page = "elem \<Rightarrow> content"

fun perform :: "effect \<Rightarrow> page \<Rightarrow> page" where
  "perform (SetText el t) d = d(el := t)"
| "perform (Console l) d = d"
| "perform (Fetch u) d = d"

definition render :: "effect list \<Rightarrow> page \<Rightarrow> page" where
  "render es d = fold perform es d"

text \<open>
  An update is a message of the push stream or a settled poll. Each handler runs to its
  end before the next event is taken, so updates are applied in arrival order.
\<close>

datatype update = Realtime payload | Polled response

fun apply_update :: "(elem \<Rightarrow> bool) \<Rightarrow> update \<Rightarrow> prog" where
  "apply_update present (Realtime p) = onmessage present p"
| "apply_update present (Polled r) = updateDashboardCards_resume present r"

definition display :: "(elem \<Rightarrow> bool) \<Rightarrow> update list \<Rightarrow> page \<Rightarrow> page" where
  "display present us d = fold (\<lambda>u. render (fst (apply_update present u))) us d"

text \<open>The text an effect list leaves in an element: that of its last assignment to it.\<close>

fun written :: "effect list \<Rightarrow> elem \<Rightarrow> content option" where
  "written [] el = None"
| "written (SetText e t # es) el =
     (case written es el of Some v \<Rightarrow> Some v | None \<Rightarrow> if e = el then Some t else None)"
| "written (x # es) el = written es el"

section \<open>The fallback poller\<close>

text \<open>
  \<^verbatim>\<open>setInterval(updateDashboardCards, 10000)\<close>, after one call when the page has loaded
  (lines 621 to 633).
  \<open>Tick\<close> is a call of \<^verbatim>\<open>updateDashboardCards\<close>, by the timer or by that first call;
  \<open>Settled r\<close> is a request in flight settling with \<open>r\<close>, which resumes the call that
  awaits it. The poller counts the requests it has issued and those still in flight.
\<close>

datatype timer_event = Tick | Settled response

fun is_fetch :: "effect \<Rightarrow> bool" where
  "is_fetch (Fetch u) = True"
| "is_fetch x = False"

definition fetches :: "effect list \<Rightarrow> nat" where
  "fetches es = length (filter is_fetch es)"

record poller =
  in_flight :: nat
  requests :: nat

fun poll_step :: "(elem \<Rightarrow> bool) \<Rightarrow> timer_event \<Rightarrow> poller \<Rightarrow> poller" where
  "poll_step present Tick s =
     (let n = fetches (fst updateDashboardCards_start)
      in s\<lparr>in_flight := in_flight s + n, requests := requests s + n\<rparr>)"
| "poll_step present (Settled r) s =
     (let n = fetches (fst (updateDashboardCards_resume present r))
      in s\<lparr>in_flight := in_flight s - 1 + n, requests := requests s + n\<rparr>)"

definition run_poller :: "(elem \<Rightarrow> bool) \<Rightarrow> timer_event list \<Rightarrow> poller \<Rightarrow> poller" where
  "run_poller present es s = fold (poll_step present) es s"

definition idle :: poller where
  "idle = \<lparr>in_flight = 0, requests = 0\<rparr>"

fun is_tick :: "timer_event \<Rightarrow> bool" where
  "is_tick Tick = True"
| "is_tick (Settled r) = False"

text \<open>
  The events up to the time \<open>horizon\<close> when the calls come at the multiples of
  \<open>interval\<close>, from 0 on, and each request settles \<open>duration\<close> after its call with \<open>r\<close>.
\<close>

definition timeline :: "nat \<Rightarrow> nat \<Rightarrow> nat \<Rightarrow> response \<Rightarrow> timer_event list" where
  "timeline interval duration horizon r =
     (let calls = map (\<lambda>k. k * interval) [0..<horizon div interval + 1]
      in map snd (sort_key fst
           (map (\<lambda>t. (t, Tick)) calls
            @ map (\<lambda>t. (t + duration, Settled r)) (filter (\<lambda>t. t + duration \<le> horizon) calls))))"

section \<open>The structured upload form\<close>

text \<open>\<^verbatim>\<open>funcionalidades.js\<close>, lines 409 to 617.\<close>

text \<open>
  \<^verbatim>\<open>String.prototype.trim\<close> on strings of 8-bit characters: tab, line feed, vertical
  tab, form feed, carriage return, space and no-break space are stripped at both ends.
\<close>

definition is_space :: "char \<Rightarrow> bool" where
  "is_space c = (c \<in> set [CHR 0x09, CHR 0x0A, CHR 0x0B, CHR 0x0C, CHR 0x0D, CHR 0x20, CHR 0xA0])"

definition trim :: "string \<Rightarrow> string" where
  "trim s = rev (dropWhile is_space (rev (dropWhile is_space s)))"

datatype upload = File (file_name: string)

text \<open>
  The controls of \<^verbatim>\<open>#structured-upload-form\<close>: the two dropdowns, the two text inputs,
  the file input, and whether the form has its submit button.
\<close>

record form =
  courseSelect_value :: string
  newCourseInput_value :: string
  moduleSelect_options :: "(string \<times> string) list"
  moduleSelect_value :: string
  moduleSelect_disabled :: bool
  newModuleInput_value :: string
  newModuleInput_disabled :: bool
  fileInput_files :: "upload list"
  submitBtn :: bool

text \<open>The single option that an assignment to \<^verbatim>\<open>moduleSelect.innerHTML\<close> leaves.\<close>

definition Selecione_um_Curso_Primeiro :: "string \<times> string" where
  "Selecione_um_Curso_Primeiro = ([], ''-- Selecione um Curso Primeiro --'')"

definition Selecione_um_Modulo :: "string \<times> string" where
  "Selecione_um_Modulo = ([], ''-- Selecione um M'' @ [CHR 0xF3] @ ''dulo --'')"

definition Nenhum_modulo_encontrado :: "string \<times> string" where
  "Nenhum_modulo_encontrado = ([], ''-- Nenhum m'' @ [CHR 0xF3] @ ''dulo encontrado --'')"

text \<open>The \<^verbatim>\<open>input\<close> listener of \<^verbatim>\<open>#new-course\<close> (lines 582 to 591).\<close>

definition newCourseInput_input :: "form \<Rightarrow> form" where
  "newCourseInput_input s =
     (if trim (newCourseInput_value s) \<noteq> []
      then s\<lparr> courseSelect_value := [],
              moduleSelect_options := [Selecione_um_Curso_Primeiro],
              moduleSelect_value := [],
              moduleSelect_disabled := True,
              newModuleInput_disabled := True,
              newModuleInput_value := [] \<rparr>
      else s)"

text \<open>The \<^verbatim>\<open>input\<close> listener of \<^verbatim>\<open>#new-module\<close> (lines 594 to 598).\<close>

definition newModuleInput_input :: "form \<Rightarrow> form" where
  "newModuleInput_input s =
     (if trim (newModuleInput_value s) \<noteq> [] then s\<lparr>moduleSelect_value := []\<rparr> else s)"

text \<open>
  The first \<^verbatim>\<open>change\<close> listener of \<^verbatim>\<open>#select-course\<close> (lines 458 to 492), up to its
  request for the modules of the course.
\<close>

definition courseSelect_change_modules :: "form \<Rightarrow> form" where
  "courseSelect_change_modules s =
     s\<lparr> moduleSelect_options := [Selecione_um_Modulo],
        moduleSelect_value := [],
        newModuleInput_disabled := (courseSelect_value s = []),
        moduleSelect_disabled := (courseSelect_value s = []) \<rparr>"

text \<open>
  The same listener once the request has settled: no modules (a 404 or an empty list)
  leave one option, a list of names is appended to the options, a failure changes no
  control. The dropdown holds an option when names are appended (the listener put one
  there before the request), so its value stays.
\<close>

datatype modules_reply = ModulesNotFound | ModulesFailed | ModulesList "string list"

fun courseSelect_change_resume :: "modules_reply \<Rightarrow> form \<Rightarrow> form" where
  "courseSelect_change_resume ModulesFailed s = s"
| "courseSelect_change_resume (ModulesList (m # ms)) s =
     s\<lparr>moduleSelect_options := moduleSelect_options s @ map (\<lambda>x. (x, x)) (m # ms)\<rparr>"
| "courseSelect_change_resume r s =
     s\<lparr>moduleSelect_options := [Nenhum_modulo_encontrado], moduleSelect_value := []\<rparr>"

text \<open>The second \<^verbatim>\<open>change\<close> listener of \<^verbatim>\<open>#select-course\<close> (lines 601 to 605).\<close>

definition courseSelect_change :: "form \<Rightarrow> form" where
  "courseSelect_change s =
     (if courseSelect_value s \<noteq> [] then s\<lparr>newCourseInput_value := []\<rparr> else s)"

text \<open>The \<^verbatim>\<open>change\<close> listener of \<^verbatim>\<open>#select-module\<close> (lines 608 to 612).\<close>

definition moduleSelect_change :: "form \<Rightarrow> form" where
  "moduleSelect_change s =
     (if moduleSelect_value s \<noteq> [] then s\<lparr>newModuleInput_value := []\<rparr> else s)"

text \<open>
  What the user does. The browser puts the typed text or the chosen option in the
  control, then runs the control's listeners in the order they were added.
\<close>

datatype gesture =
    TypeNewCourse string
  | TypeNewModule string
  | ChooseCourse string
  | ChooseModule string
  | ModulesArrive modules_reply

fun form_step :: "gesture \<Rightarrow> form \<Rightarrow> form" where
  "form_step (TypeNewCourse t) s = newCourseInput_input (s\<lparr>newCourseInput_value := t\<rparr>)"
| "form_step (TypeNewModule t) s = newModuleInput_input (s\<lparr>newModuleInput_value := t\<rparr>)"
| "form_step (ChooseCourse v) s =
     courseSelect_change (courseSelect_change_modules (s\<lparr>courseSelect_value := v\<rparr>))"
| "form_step (ChooseModule v) s = moduleSelect_change (s\<lparr>moduleSelect_value := v\<rparr>)"
| "form_step (ModulesArrive r) s = courseSelect_change_resume r s"

text \<open>
  At one level, the existing choice and the typed new name (trimmed, as the form takes
  it) are not both non-empty.
\<close>

definition exclusive :: "string \<Rightarrow> string \<Rightarrow> bool" where
  "exclusive selected typed = (selected = [] \<or> trim typed = [])"

definition mutually_exclusive :: "form \<Rightarrow> bool" where
  "mutually_exclusive s =
     (exclusive (courseSelect_value s) (newCourseInput_value s)
      \<and> exclusive (moduleSelect_value s) (newModuleInput_value s))"

subsection \<open>The \<^verbatim>\<open>submit\<close> listener\<close>

text \<open>Lines 495 to 578.\<close>

datatype kind = Info | Success | Warning | Danger

text \<open>An exception the engine raised, or \<^verbatim>\<open>new Error(message)\<close>.\<close>

datatype js_error = Raised exn | Error_of content

fun message_of :: "js_error \<Rightarrow> content" where
  "message_of (Raised e) = Message e"
| "message_of (Error_of m) = m"

text \<open>
  What the listener does: \<open>Feedback\<close> is \<^verbatim>\<open>showStructuredFeedback\<close>, \<open>Post\<close> the
  \<^verbatim>\<open>fetch\<close> of \<^verbatim>\<open>/api/upload_structured\<close> with the file, the course and the module,
  \<open>LogSent\<close> and \<open>LogFailed\<close> the \<^verbatim>\<open>console.log\<close> and \<^verbatim>\<open>console.error\<close> of the loop.
\<close>

datatype action =
    PreventDefault
  | Feedback content kind
  | SubmitDisabled bool
  | Post upload string string
  | LogSent upload
  | LogFailed upload js_error
  | LoadCourses
  | DispatchChange

text \<open>
  One file's \<^verbatim>\<open>try\<close> block from the settled request on: the decoded body of an
  accepted upload, or the exception that takes the loop to its \<^verbatim>\<open>catch\<close>.
\<close>

fun upload_structured :: "response \<Rightarrow> js_error + json" where
  "upload_structured NetworkFailure = Inl (Raised TypeError)"
| "upload_structured (Response status NotJson) = Inl (Raised SyntaxError)"
| "upload_structured (Response status (Json data)) =
     (if \<not> ok status then
        (case member (Some data) ''detail'' of
           Inl e \<Rightarrow> Inl (Raised e)
         | Inr detail \<Rightarrow>
             Inl (Error_of (Shown (or_else detail (JStr (''Erro '' @ show_nat status))))))
      else Inr data)"

definition Enviando :: "nat \<Rightarrow> nat \<Rightarrow> content" where
  "Enviando successCount len =
     Lit (''Enviando: '' @ show_nat successCount @ ''/'' @ show_nat len @ '' arquivos...'')"

definition Erro_ao_enviar :: "upload \<Rightarrow> js_error \<Rightarrow> content" where
  "Erro_ao_enviar f err = Template [Lit ''Erro ao enviar '', Lit (file_name f), Lit '': '', message_of err]"

definition enviados_com_sucesso :: "nat \<Rightarrow> string \<Rightarrow> string \<Rightarrow> content" where
  "enviados_com_sucesso successCount course modul =
     Lit (show_nat successCount @ '' arquivo(s) enviado(s) com sucesso para '' @ [CHR 0x27] @ course
          @ [CHR 0x27] @ '' -> '' @ [CHR 0x27] @ modul @ [CHR 0x27] @ ''!'')"

definition Alguns_arquivos :: "nat \<Rightarrow> nat \<Rightarrow> content" where
  "Alguns_arquivos failed len =
     Lit (''Alguns arquivos ('' @ show_nat failed @ '' de '' @ show_nat len @ '') n''
          @ [CHR 0xE3] @ ''o puderam ser enviados. Veja os erros acima.'')"

text \<open>
  The loop \<^verbatim>\<open>for (let i = 0; i < files.length; i++)\<close> from index \<open>i\<close> on; \<open>reply i\<close> is
  what the request for the file at \<open>i\<close> settles with. It gives the actions of the loop
  and the final \<^verbatim>\<open>allSuccess\<close> and \<^verbatim>\<open>successCount\<close>.
\<close>

fun send_files ::
  "string \<Rightarrow> string \<Rightarrow> nat \<Rightarrow> (nat \<Rightarrow> response) \<Rightarrow> nat \<Rightarrow> upload list \<Rightarrow> bool \<Rightarrow> nat
     \<Rightarrow> action list \<times> bool \<times> nat" where
  "send_files course modul len reply i [] allSuccess successCount =
     ([], allSuccess, successCount)"
| "send_files course modul len reply i (f # fs) allSuccess successCount =
     (case upload_structured (reply i) of
        Inr data \<Rightarrow>
          (case send_files course modul len reply (i + 1) fs allSuccess (successCount + 1) of
             (acts, a, n) \<Rightarrow>
               (Post f course modul # LogSent f
                  # Feedback (Enviando (successCount + 1) len) Info # acts, a, n))
      | Inl err \<Rightarrow>
          (case send_files course modul len reply (i + 1) fs False successCount of
             (acts, a, n) \<Rightarrow>
               (Post f course modul # LogFailed f err
                  # Feedback (Erro_ao_enviar f err) Danger # acts, a, n)))"

text \<open>\<^verbatim>\<open>selectedCourse || newCourse\<close> and \<^verbatim>\<open>selectedModule || newModule\<close>, all four trimmed.\<close>

definition targetCourse :: "form \<Rightarrow> string" where
  "targetCourse s =
     (let selectedCourse = trim (courseSelect_value s); newCourse = trim (newCourseInput_value s)
      in if selectedCourse \<noteq> [] then selectedCourse else newCourse)"

definition targetModule :: "form \<Rightarrow> string" where
  "targetModule s =
     (let selectedModule = trim (moduleSelect_value s); newModule = trim (newModuleInput_value s)
      in if selectedModule \<noteq> [] then selectedModule else newModule)"

definition selecione_um_curso :: content where
  "selecione_um_curso =
     Lit ''Por favor, selecione um curso existente ou digite o nome de um novo.''"

definition selecione_um_modulo :: content where
  "selecione_um_modulo =
     Lit (''Por favor, selecione um m'' @ [CHR 0xF3] @ ''dulo existente ou digite o nome de um novo.'')"

definition selecione_um_arquivo :: content where
  "selecione_um_arquivo = Lit ''Por favor, selecione pelo menos um arquivo.''"

text \<open>
  The listener. \<open>courseNow\<close> is \<^verbatim>\<open>courseSelect.value\<close> as it is read again after the
  loop. A form without submit button makes \<^verbatim>\<open>submitBtn.disabled = true\<close> raise.
\<close>

definition structured_submit ::
  "form \<Rightarrow> (nat \<Rightarrow> response) \<Rightarrow> string \<Rightarrow> action list \<times> exn option" where
  "structured_submit s reply courseNow =
     (let files = fileInput_files s in
      if targetCourse s = [] then ([PreventDefault, Feedback selecione_um_curso Warning], None)
      else if targetModule s = [] then ([PreventDefault, Feedback selecione_um_modulo Warning], None)
      else if length files = 0 then ([PreventDefault, Feedback selecione_um_arquivo Warning], None)
      else if \<not> submitBtn s then ([PreventDefault], Some TypeError)
      else
        (case send_files (targetCourse s) (targetModule s) (length files) reply 0 files True 0 of
           (acts, allSuccess, successCount) \<Rightarrow>
             ([PreventDefault, SubmitDisabled True, Feedback (Lit ''Enviando arquivos...'') Info]
              @ acts
              @ (if allSuccess
                 then [Feedback (enviados_com_sucesso successCount (targetCourse s) (targetModule s)) Success,
                       LoadCourses]
                      @ (if courseNow = targetCourse s then [DispatchChange] else [])
                 else [Feedback (Alguns_arquivos (length files - successCount) (length files)) Danger])
              @ [SubmitDisabled False],
              None)))"

text \<open>
  What a run shows: the requests it issued, its feedback lines, and its exchanges with
  the server, a request being followed by its outcome as the loop logs it.
\<close>

datatype exchange = Request upload | Outcome upload bool

fun posts :: "action list \<Rightarrow> (upload \<times> string \<times> string) list" where
  "posts [] = []"
| "posts (Post f c m # as) = (f, c, m) # posts as"
| "posts (a # as) = posts as"

fun exchanges :: "action list \<Rightarrow> exchange list" where
  "exchanges [] = []"
| "exchanges (Post f c m # as) = Request f # exchanges as"
| "exchanges (LogSent f # as) = Outcome f True # exchanges as"
| "exchanges (LogFailed f e # as) = Outcome f False # exchanges as"
| "exchanges (a # as) = exchanges as"

fun feedbacks :: "action list \<Rightarrow> (content \<times> kind) list" where
  "feedbacks [] = []"
| "feedbacks (Feedback m k # as) = (m, k) # feedbacks as"
| "feedbacks (a # as) = feedbacks as"

text \<open>An upload is accepted when the response has a 2xx status and a JSON body.\<close>

fun accepted :: "response \<Rightarrow> bool" where
  "accepted (Response status (Json data)) = ok status"
| "accepted r = False"

text \<open>The effective course or module in the words of the specification.\<close>

definition effective :: "string \<Rightarrow> string \<Rightarrow> string" where
  "effective selected typed = (if selected \<noteq> [] then selected else trim typed)"

section \<open>The React upload page: \<^verbatim>\<open>UploadPage.jsx\<close>\<close>

text \<open>The state of the page (lines 8 to 11) and \<^verbatim>\<open>handleUpload\<close> (lines 27 to 73).\<close>

record upload_result =
  filename :: string
  status :: string
  taskId :: "json option"
  message :: "json option"

record upload_page =
  files :: "upload list"
  uploading :: bool
  uploadResults :: "upload_result list"
  error :: content

text \<open>
  What \<^verbatim>\<open>await axios.post(...)\<close> gives: a response with its decoded \<^verbatim>\<open>data\<close>, or an
  error, of which the page reads \<^verbatim>\<open>err.response?.data\<close>.
\<close>

datatype axios_reply = Resolved json | Rejected "json option"

text \<open>The entry pushed in the inner \<^verbatim>\<open>catch\<close>.\<close>

definition upload_error :: "upload \<Rightarrow> json option \<Rightarrow> upload_result" where
  "upload_error f d =
     \<lparr> filename = file_name f, status = ''error'', taskId = None,
       message = Some (or_else (case opt_member d ''detail'' of Inl e \<Rightarrow> None | Inr x \<Rightarrow> x)
                         (JStr ''Erro no upload'')) \<rparr>"

text \<open>
  The inner \<^verbatim>\<open>try\<close> and \<^verbatim>\<open>catch\<close> for one file. Reading \<^verbatim>\<open>response.data.task_id\<close> raises
  on a \<^verbatim>\<open>null\<close> body; the \<^verbatim>\<open>catch\<close> takes that exception too, and it has no response.
\<close>

fun upload_one :: "upload \<Rightarrow> axios_reply \<Rightarrow> upload_result" where
  "upload_one f (Rejected d) = upload_error f d"
| "upload_one f (Resolved data) =
     (case member (Some data) ''task_id'' of
        Inl e \<Rightarrow> upload_error f None
      | Inr tid \<Rightarrow>
          (case member (Some data) ''message'' of
             Inl e \<Rightarrow> upload_error f None
           | Inr msg \<Rightarrow> \<lparr> filename = file_name f, status = ''success'', taskId = tid, message = msg \<rparr>))"

text \<open>The loop \<^verbatim>\<open>for (const file of files)\<close>; \<open>reply i\<close> answers the request at \<open>i\<close>.\<close>

fun upload_all :: "(nat \<Rightarrow> axios_reply) \<Rightarrow> nat \<Rightarrow> upload list \<Rightarrow> upload_result list" where
  "upload_all reply i [] = []"
| "upload_all reply i (f # fs) = upload_one f (reply i) # upload_all reply (i + 1) fs"

text \<open>
  The outer \<^verbatim>\<open>try\<close> block. Each statement of the loop that can raise is inside the inner
  \<^verbatim>\<open>try\<close>, so the block always reaches \<^verbatim>\<open>setUploadResults(results)\<close>.
\<close>

definition handleUpload_try :: "upload list \<Rightarrow> (nat \<Rightarrow> axios_reply) \<Rightarrow> js_error + upload_result list" where
  "handleUpload_try fs reply = Inr (upload_all reply 0 fs)"

text \<open>
  \<^verbatim>\<open>handleUpload\<close>, from the state of the page when the button is pressed to its state
  when the handler has ended: the outer \<^verbatim>\<open>catch\<close>, then the \<^verbatim>\<open>finally\<close>.
\<close>

definition handleUpload :: "upload_page \<Rightarrow> (nat \<Rightarrow> axios_reply) \<Rightarrow> upload_page" where
  "handleUpload st reply =
     (if length (files st) = 0
      then st\<lparr>error := Lit ''Por favor, selecione pelo menos um arquivo''\<rparr>
      else
        (let st1 = st\<lparr>uploading := True, error := Lit [], uploadResults := []\<rparr>;
             st2 = (case handleUpload_try (files st) reply of
                      Inr results \<Rightarrow> st1\<lparr>uploadResults := results\<rparr>
                    | Inl err \<Rightarrow>
                        st1\<lparr>error := Template [Lit ''Erro ao processar uploads: '', message_of err]\<rparr>)
         in st2\<lparr>uploading := False, files := []\<rparr>))"

section \<open>Notions used in the statements\<close>

text \<open>
  Which part of a payload feeds which element. A push event writes the four system
  cards from its \<^verbatim>\<open>system\<close> block, the three queue cards from its \<^verbatim>\<open>queue\<close> block and
  the status from its \<^verbatim>\<open>workers\<close> block; a polled response writes the queue cards from
  three keys of its own, the system cards from its \<^verbatim>\<open>system\<close> block and the two
  performance elements from its \<^verbatim>\<open>metrics\<close> block. \<open>carries data k\<close> is the test
  \<^verbatim>\<open>if (data.k)\<close>.
\<close>

definition carries :: "json \<Rightarrow> string \<Rightarrow> bool" where
  "carries data k = (case member (Some data) k of Inl e \<Rightarrow> False | Inr b \<Rightarrow> truthy_opt b)"

fun system_key :: "elem \<Rightarrow> string option" where
  "system_key MetricCpu = Some ''cpu_percent''"
| "system_key MetricRam = Some ''memory_percent''"
| "system_key MetricRamUsed = Some ''memory_used_gb''"
| "system_key MetricRamTotal = Some ''memory_total_gb''"
| "system_key el = None"

fun push_queue_key :: "elem \<Rightarrow> string option" where
  "push_queue_key MetricTotalTranscriptions = Some ''total_transcriptions''"
| "push_queue_key MetricQueueWeb = Some ''web_size''"
| "push_queue_key MetricQueueGdrive = Some ''gdrive_size''"
| "push_queue_key el = None"

fun poll_queue_key :: "elem \<Rightarrow> string option" where
  "poll_queue_key MetricTotalTranscriptions = Some ''total_transcriptions''"
| "poll_queue_key MetricQueueWeb = Some ''queue_web_size''"
| "poll_queue_key MetricQueueGdrive = Some ''queue_gdrive_size''"
| "poll_queue_key el = None"

fun push_source :: "json \<Rightarrow> elem \<Rightarrow> bool" where
  "push_source data SystemStatus = carries data ''workers''"
| "push_source data ModelPerformanceList = False"
| "push_source data AvgProcessTime = False"
| "push_source data el =
     (if system_key el \<noteq> None then carries data ''system'' else carries data ''queue'')"

fun poll_source :: "json \<Rightarrow> elem \<Rightarrow> bool" where
  "poll_source data SystemStatus = False"
| "poll_source data ModelPerformanceList = carries data ''metrics''"
| "poll_source data AvgProcessTime = carries data ''metrics''"
| "poll_source data el =
     (case poll_queue_key el of
        Some k \<Rightarrow> member (Some data) k \<noteq> Inr None
      | None \<Rightarrow> carries data ''system'')"

text \<open>
  A worker entry that reports the status \<^verbatim>\<open>'running'\<close>: the workers object has the
  worker, the worker is an object, and its \<^verbatim>\<open>status\<close> is that string.
\<close>

fun reports_running :: "json \<Rightarrow> string \<Rightarrow> bool" where
  "reports_running (JObj ws) worker =
     (case map_of ws worker of
        Some (JObj w) \<Rightarrow> map_of w ''status'' = Some (JStr ''running'')
      | _ \<Rightarrow> False)"
| "reports_running v worker = False"

text \<open>An upload of the React page succeeds when the request resolves with a body that is not \<^verbatim>\<open>null\<close>.\<close>

fun resolved :: "axios_reply \<Rightarrow> bool" where
  "resolved (Resolved data) = (data \<noteq> JNull)"
| "resolved (Rejected d) = False"

text \<open>The effects of a run all lie in a given set.\<close>

definition only :: "effect set \<Rightarrow> prog \<Rightarrow> bool" where
  "only S p = (set (fst p) \<subseteq> S)"

definition system_elems :: "elem set" where
  "system_elems = {MetricCpu, MetricRam, MetricRamUsed, MetricRamTotal}"

definition queue_elems :: "elem set" where
  "queue_elems = {MetricTotalTranscriptions, MetricQueueWeb, MetricQueueGdrive}"

text \<open>A page with every element, and texts to start from.\<close>

definition whole_page :: "elem \<Rightarrow> bool" where
  "whole_page el = True"

definition loading_page :: page where
  "loading_page el = Lit ''Carregando...''"

text \<open>Payloads used as examples.\<close>

definition queue_total :: "rat \<Rightarrow> json" where
  "queue_total n = JObj [(''queue'', JObj [(''total_transcriptions'', JNum n)])]"

definition status_total :: "rat \<Rightarrow> json" where
  "status_total n = JObj [(''total_transcriptions'', JNum n)]"

definition both_running :: json where
  "both_running =
     JObj [ (''web'', JObj [(''status'', JStr ''running'')]),
            (''gdrive'', JObj [(''status'', JStr ''running'')]) ]"

definition event_workers :: json where
  "event_workers = JObj [(''workers'', both_running)]"

definition event_web_stopped :: json where
  "event_web_stopped =
     JObj [(''workers'',
       JObj [ (''web'', JObj [(''status'', JStr ''stopped'')]),
              (''gdrive'', JObj [(''status'', JStr ''running'')]) ])]"

definition event_null_cpu :: json where
  "event_null_cpu =
     JObj [ (''system'', JObj [(''cpu_percent'', JNull)]), (''workers'', both_running) ]"

definition event_cpu :: json where
  "event_cpu = JObj [(''system'', JObj [(''cpu_percent'', JNum (25 / 2))])]"

definition event_empty_queue :: json where
  "event_empty_queue = JObj [(''queue'', JObj [])]"

definition event_empty_both :: json where
  "event_empty_both = JObj [(''system'', JObj []), (''queue'', JObj [])]"

definition event_empty_system :: json where
  "event_empty_system = JObj [(''system'', JObj [])]"

definition five_files :: "upload list" where
  "five_files = [File ''a1.mp3'', File ''a2.mp3'', File ''a3.mp3'', File ''a4.mp3'', File ''a5.mp3'']"

definition empty_form :: form where
  "empty_form =
     \<lparr> courseSelect_value = [], newCourseInput_value = [],
       moduleSelect_options = [Selecione_um_Curso_Primeiro], moduleSelect_value = [],
       moduleSelect_disabled = True, newModuleInput_value = [], newModuleInput_disabled = True,
       fileInput_files = [], submitBtn = True \<rparr>"

definition filled_form :: form where
  "filled_form =
     empty_form \<lparr> courseSelect_value := ''Curso A'', moduleSelect_disabled := False,
       newModuleInput_value := '' M1 '', newModuleInput_disabled := False,
       fileInput_files := five_files \<rparr>"

definition fail_2_and_4 :: "nat \<Rightarrow> response" where
  "fail_2_and_4 i =
     (if i = 1 \<or> i = 3 then Response 500 (Json (JObj [(''detail'', JStr ''falhou'')]))
      else Response 200 (Json (JObj [(''filename'', JStr ''ok'')])))"

definition five_selected :: upload_page where
  "five_selected = \<lparr> files = five_files, uploading = False, uploadResults = [], error = Lit [] \<rparr>"

definition reject_2_and_4 :: "nat \<Rightarrow> axios_reply" where
  "reject_2_and_4 i =
     (if i = 1 \<or> i = 3 then Rejected None else Resolved (JObj [(''task_id'', JStr ''t'')]))"

definition reject_all :: "nat \<Rightarrow> axios_reply" where
  "reject_all i = Rejected None"

text \<open>
  What an update gives an element, read off its payload alone. \<open>sub v k\<close> is the value
  under the key \<open>k\<close> of an object and \<open>in_block data b k\<close> the value under \<open>k\<close> in the
  block \<open>b\<close> of a payload. A number is shown with its decimals, anything else as the
  placeholder.
\<close>

fun sub :: "json \<Rightarrow> string \<Rightarrow> json option" where
  "sub (JObj kvs) k = map_of kvs k"
| "sub v k = None"








text \<open>
  A poll fails when the request fails, the status is not 2xx or the body is not JSON;
  it then gives \<^verbatim>\<open>'Erro'\<close> to five cards. A polled response gives each queue card whose
  key it has, the system cards when it carries a \<^verbatim>\<open>system\<close> block, and the two
  performance elements when it carries a \<^verbatim>\<open>metrics\<close> block and both are on the page.
\<close>

fun failed :: "response \<Rightarrow> bool" where
  "failed NetworkFailure = True"
| "failed (Response st NotJson) = True"
| "failed (Response st (Json data)) = (\<not> ok st)"








text \<open>
  The feedback lines of a batch, as the workflow words them: after an accepted upload
  the count of files sent so far out of all, after a failed one the name of the file
  and the message of the failure (that of the exception, the \<^verbatim>\<open>detail\<close> of the error body
  or the status), and at the end one aggregate line, the count of files sent when all
  were sent and the count of failed files out of all otherwise.
\<close>

definition progress_line :: "nat \<Rightarrow> nat \<Rightarrow> content" where
  "progress_line sent n =
     Lit (''Enviando: '' @ show_nat sent @ ''/'' @ show_nat n @ '' arquivos...'')"

fun failure_message :: "response \<Rightarrow> content" where
  "failure_message NetworkFailure = Message TypeError"
| "failure_message (Response st NotJson) = Message SyntaxError"
| "failure_message (Response st (Json JNull)) = Message TypeError"
| "failure_message (Response st (Json data)) =
     Shown (or_else (sub data ''detail'') (JStr (''Erro '' @ show_nat st)))"

definition failure_line :: "upload \<Rightarrow> response \<Rightarrow> content" where
  "failure_line f r =
     Template [Lit ''Erro ao enviar '', Lit (file_name f), Lit '': '', failure_message r]"

definition aggregate_line :: "nat \<Rightarrow> nat \<Rightarrow> string \<Rightarrow> string \<Rightarrow> content \<times> kind" where
  "aggregate_line n sent course modul =
     (if sent = n
      then (Lit (show_nat sent @ '' arquivo(s) enviado(s) com sucesso para '' @ [CHR 0x27] @ course
                 @ [CHR 0x27] @ '' -> '' @ [CHR 0x27] @ modul @ [CHR 0x27] @ ''!''), Success)
      else (Lit (''Alguns arquivos ('' @ show_nat (n - sent) @ '' de '' @ show_nat n @ '') n''
                 @ [CHR 0xE3] @ ''o puderam ser enviados. Veja os erros acima.''), Danger))"

text \<open>The number of accepted uploads among those at the indices from \<open>i\<close> up to \<open>j\<close>.\<close>

definition sent_upto :: "(nat \<Rightarrow> response) \<Rightarrow> nat \<Rightarrow> nat \<Rightarrow> nat" where
  "sent_upto reply i j = length (filter (\<lambda>x. accepted (reply x)) [i..<Suc j])"

definition result_line :: "(nat \<Rightarrow> response) \<Rightarrow> nat \<Rightarrow> upload \<times> nat \<Rightarrow> content \<times> kind" where
  "result_line reply n fi =
     (if accepted (reply (snd fi))
      then (progress_line (sent_upto reply 0 (snd fi)) n, Info)
      else (failure_line (fst fi) (reply (snd fi)), Danger))"

definition accept_all :: "nat \<Rightarrow> response" where
  "accept_all i = Response 200 (Json (JObj [(''filename'', JStr ''ok'')]))"

section \<open>Properties\<close>

subsection \<open>Auxiliary facts\<close>

lemma render_written:
  "render es d el = (case written es el of Some v \<Rightarrow> v | None \<Rightarrow> d el)"
  unfolding render_def
proof (induction es arbitrary: d)
  case Nil
  then show ?case by simp
next
  case (Cons a es)
  then show ?case by (cases a) (auto split: option.splits)
qed

lemma written_append:
  "written (es @ fs) el = (case written fs el of Some v \<Rightarrow> Some v | None \<Rightarrow> written es el)"
proof (induction es)
  case Nil
  then show ?case by (simp split: option.splits)
next
  case (Cons a es)
  then show ?case by (cases a) (auto split: option.splits)
qed

lemma written_None: "(\<And>t. SetText el t \<notin> set es) \<Longrightarrow> written es el = None"
proof (induction es)
  case Nil
  then show ?case by simp
next
  case (Cons a es)
  then show ?case by (cases a) (auto split: option.splits)
qed

lemma written_mem: "written es el = Some t \<Longrightarrow> SetText el t \<in> set es"
proof (induction es)
  case Nil
  then show ?case by simp
next
  case (Cons a es)
  then show ?case by (cases a) (auto split: option.splits if_splits)
qed


lemma snd_seq: "snd (seq p q) = (case snd p of Some e \<Rightarrow> Some e | None \<Rightarrow> snd q)"
  by (cases p; cases "snd p") auto

lemma fst_seq: "fst (seq p q) = (case snd p of Some e \<Rightarrow> fst p | None \<Rightarrow> fst p @ fst q)"
  by (cases p; cases "snd p") auto

lemma snd_try_catch:
  "snd (try_catch p h) = (case snd p of None \<Rightarrow> None | Some e \<Rightarrow> snd (h e))"
  by (cases p; cases "snd p") auto

lemma fst_try_catch:
  "fst (try_catch p h) = (case snd p of None \<Rightarrow> fst p | Some e \<Rightarrow> fst p @ fst (h e))"
  by (cases p; cases "snd p") auto

lemma only_skip: "only S skip"
  by (simp add: only_def skip_def)

lemma only_throw: "only S (throw e)"
  by (simp add: only_def throw_def)

lemma only_emit: "x \<in> S \<Longrightarrow> only S (emit x)"
  by (simp add: only_def emit_def)

lemma only_seq: "only S p \<Longrightarrow> only S q \<Longrightarrow> only S (seq p q)"
  by (cases p; cases "snd p") (auto simp: only_def)

lemma only_steps: "(\<And>p. p \<in> set ps \<Longrightarrow> only S p) \<Longrightarrow> only S (steps ps)"
  by (induction ps) (auto intro: only_skip only_seq)

lemma only_bindv: "(\<And>v. x = Inr v \<Longrightarrow> only S (k v)) \<Longrightarrow> only S (bindv x k)"
  by (cases x) (auto intro: only_throw)

lemma only_when_truthy:
  "(\<And>v. x = Some v \<Longrightarrow> truthy v \<Longrightarrow> only S (k v)) \<Longrightarrow> only S (when_truthy x k)"
  by (cases x) (auto intro: only_skip)

lemma only_try_catch: "only S p \<Longrightarrow> (\<And>e. only S (h e)) \<Longrightarrow> only S (try_catch p h)"
  by (cases p; cases "snd p") (auto simp: only_def intro: only_seq)

lemma only_assign:
  "(\<And>t. rhs = Inr t \<Longrightarrow> SetText el t \<in> S) \<Longrightarrow> only S (assign present el rhs)"
  by (auto simp: assign_def intro: only_bindv only_emit only_throw)

lemma only_assign_if_present:
  "(\<And>t. rhs = Inr t \<Longrightarrow> SetText el t \<in> S) \<Longrightarrow> only S (assign_if_present present el rhs)"
  by (auto simp: assign_if_present_def intro: only_assign only_skip)

lemma only_mono: "only S p \<Longrightarrow> S \<subseteq> T \<Longrightarrow> only T p"
  by (auto simp: only_def)

lemma only_written: "only S p \<Longrightarrow> (\<And>t. SetText el t \<notin> S) \<Longrightarrow> written (fst p) el = None"
  by (rule written_None) (auto simp: only_def)

lemmas only_intros =
  only_skip only_throw only_emit only_seq only_steps only_bindv only_when_truthy
  only_try_catch only_assign only_assign_if_present

lemma only_sse_system:
  "only {SetText el t | el t. el \<in> system_elems} (sse_system present sys)"
  unfolding sse_system_def system_elems_def
  by (auto intro!: only_intros)

lemma only_sse_queue:
  "only {SetText el t | el t. el \<in> queue_elems} (sse_queue present q)"
  unfolding sse_queue_def queue_elems_def
  by (auto intro!: only_intros)

lemma only_sse_workers:
  "only {SetText SystemStatus (Lit ''Operacional''), SetText SystemStatus (Lit ''Problemas'')}
     (sse_workers present w)"
  unfolding sse_workers_def
  by (auto intro!: only_intros)

lemma only_poll_system:
  "only {SetText el t | el t. el \<in> system_elems} (poll_system present sys)"
  unfolding poll_system_def system_elems_def
  by (auto intro!: only_intros)

lemma only_updatePerformanceMetrics:
  "only ({Console Warn} \<union> {SetText el t | el t. el \<in> {ModelPerformanceList, AvgProcessTime}})
     (updatePerformanceMetrics present m)"
  unfolding updatePerformanceMetrics_def Let_def
  by (auto intro!: only_intros split: option.splits)

lemma only_updateDashboardCards_catch:
  "only ({Console Error} \<union> {SetText el (Lit ''Erro'') | el. el \<in>
      {MetricTotalTranscriptions, MetricQueueWeb, MetricQueueGdrive, MetricCpu, MetricRam}})
     (updateDashboardCards_catch present e)"
  unfolding updateDashboardCards_catch_def
  by (auto intro!: only_intros)

lemma block_carried:
  "member (Some data) k = Inr (Some b) \<Longrightarrow> truthy b \<Longrightarrow> block data k f = f b"
  by (simp add: block_def)

lemma only_block: "(\<And>b. carries data k \<Longrightarrow> only S (f b)) \<Longrightarrow> only S (block data k f)"
  unfolding block_def
  by (rule only_bindv, rule only_when_truthy) (simp add: carries_def)

lemma only_onmessage:
  "only ({Console Log, Console Error} \<union> {SetText el t | el t. push_source data el})
     (onmessage present (Parsed data))"
  unfolding onmessage_def onmessage_body_def
  apply simp
  apply (intro only_try_catch only_seq only_skip only_emit only_block)
      apply simp
     apply (rule only_mono[OF only_sse_system], auto simp: system_elems_def)[1]
    apply (rule only_mono[OF only_sse_queue], auto simp: queue_elems_def)[1]
   apply (rule only_mono[OF only_sse_workers], auto)[1]
  apply simp
  done

lemma only_onmessage_status:
  "only ({Console Log, Console Error} \<union> {SetText el t | el t. el \<noteq> SystemStatus}
      \<union> {SetText SystemStatus (Lit ''Operacional''), SetText SystemStatus (Lit ''Problemas'')})
     (onmessage present p)"
proof (cases p)
  case Malformed
  then show ?thesis
    by (simp add: onmessage_def onmessage_body_def throw_def emit_def only_def)
next
  case (Parsed data)
  show ?thesis
    unfolding onmessage_def onmessage_body_def Parsed
    apply simp
    apply (intro only_try_catch only_seq only_skip only_emit only_block)
        apply simp
       apply (rule only_mono[OF only_sse_system], auto simp: system_elems_def)[1]
      apply (rule only_mono[OF only_sse_queue], auto simp: queue_elems_def)[1]
     apply (rule only_mono[OF only_sse_workers], auto)[1]
    apply simp
    done
qed

lemma only_poll_field_source:
  "only {SetText el t | t. member (Some data) k \<noteq> Inr None} (poll_field present data k el)"
  unfolding poll_field_def
  by (auto intro!: only_intros split: option.splits)

lemma only_metrics_source:
  "only ({Console Warn} \<union> {SetText el t | el t. el \<in> {ModelPerformanceList, AvgProcessTime} \<and> truthy_opt m})
     (updatePerformanceMetrics present m)"
  unfolding updatePerformanceMetrics_def Let_def
  by (auto intro!: only_intros split: option.splits)

lemma only_poll_body:
  "only ({Console Log, Console Warn} \<union> {SetText el t | el t. poll_source data el})
     (updateDashboardCards_body present (Response st (Json data)))"
  unfolding updateDashboardCards_body_def
  apply (simp add: only_throw)
  apply (intro impI only_seq only_skip only_emit only_block)
        apply simp
       apply (rule only_mono[OF only_poll_field_source], auto)[1]
      apply (rule only_mono[OF only_poll_field_source], auto)[1]
     apply (rule only_mono[OF only_poll_field_source], auto)[1]
    apply (rule only_mono[OF only_poll_system], auto simp: system_elems_def)[1]
   apply (rule only_bindv)
   apply (rule only_mono[OF only_metrics_source], auto simp: carries_def)[1]
  done

lemma onmessage_returns: "snd (onmessage present p) = None"
  by (simp add: onmessage_def snd_try_catch emit_def split: option.splits)

lemma onmessage_malformed: "onmessage present Malformed = ([Console Error], None)"
  by (simp add: onmessage_def onmessage_body_def throw_def emit_def)

lemma or_else_running:
  "(or_else x (JStr ''Desconhecido'') = JStr ''running'') = (x = Some (JStr ''running''))"
  by (cases x) auto

lemma worker_status_running:
  assumes "truthy w"
  shows "\<exists>v. worker_status w name = Inr v \<and> (v = JStr ''running'') = reports_running w name"
proof (cases w)
  case (JObj ws)
  show ?thesis
  proof (cases "map_of ws name")
    case None
    then show ?thesis by (simp add: JObj worker_status_def)
  next
    case (Some x)
    then show ?thesis
      by (cases x) (auto simp: JObj worker_status_def or_else_running split: option.splits)
  qed
qed (use assms in \<open>auto simp: worker_status_def\<close>)

lemma sse_workers_written:
  assumes "truthy w" "present SystemStatus"
  shows "sse_workers present w =
     ([SetText SystemStatus
         (if reports_running w ''web'' \<and> reports_running w ''gdrive''
          then Lit ''Operacional'' else Lit ''Problemas'')], None)"
proof -
  obtain a where a: "worker_status w ''web'' = Inr a" "(a = JStr ''running'') = reports_running w ''web''"
    using worker_status_running[OF assms(1)] by blast
  obtain b where b: "worker_status w ''gdrive'' = Inr b" "(b = JStr ''running'') = reports_running w ''gdrive''"
    using worker_status_running[OF assms(1)] by blast
  show ?thesis
    using a b assms(2) by (simp add: sse_workers_def emit_def)
qed

lemma onmessage_complete:
  assumes "snd (onmessage_body present (Parsed data)) = None"
  shows "fst (onmessage present (Parsed data)) =
           Console Log # fst (block data ''system'' (sse_system present))
             @ fst (block data ''queue'' (sse_queue present))
             @ fst (block data ''workers'' (sse_workers present))"
    and "snd (block data ''system'' (sse_system present)) = None"
  using assms
  by (auto simp: onmessage_def onmessage_body_def fst_try_catch fst_seq snd_seq emit_def skip_def
      split: option.splits)

lemma steps_complete: "snd (steps ps) = None \<Longrightarrow> fst (steps ps) = concat (map fst ps)"
  by (induction ps) (auto simp: skip_def fst_seq snd_seq split: option.splits)

lemma steps_complete_each: "snd (steps ps) = None \<Longrightarrow> p \<in> set ps \<Longrightarrow> snd p = None"
  by (induction ps) (auto simp: skip_def snd_seq split: option.splits)

lemma written_other:
  "el \<noteq> el' \<Longrightarrow> written (fst (assign present el' rhs)) el = None"
  by (cases rhs) (auto simp: assign_def emit_def throw_def)

lemma written_other_if_present:
  "el \<noteq> el' \<Longrightarrow> written (fst (assign_if_present present el' rhs)) el = None"
  by (simp add: assign_if_present_def written_other skip_def)

lemma sse_system_absent:
  assumes "snd (sse_system present sys) = None" and "system_key el = Some k"
    and "member (Some sys) k = Inr None" and "present el"
  shows "written (fst (sse_system present sys)) el = Some (Lit ''--'')"
proof -
  have "fst (sse_system present sys) = concat (map fst
     [ assign_if_present present MetricCpu
         (and_then (member (Some sys) ''cpu_percent'') (\<lambda>x. fixed_or_dashes x 1)),
       assign_if_present present MetricRam
         (and_then (member (Some sys) ''memory_percent'') (\<lambda>x. fixed_or_dashes x 1)),
       assign_if_present present MetricRamUsed
         (and_then (member (Some sys) ''memory_used_gb'') (\<lambda>x. fixed_or_dashes x 2)),
       assign_if_present present MetricRamTotal
         (and_then (member (Some sys) ''memory_total_gb'') (\<lambda>x. fixed_or_dashes x 2)) ])"
    using assms(1) unfolding sse_system_def by (rule steps_complete)
  with assms(2-4) show ?thesis
    by (cases el)
       (simp_all add: written_append written_other_if_present,
        simp_all add: assign_if_present_def assign_def emit_def)
qed

lemma poll_system_absent:
  assumes "snd (poll_system present sys) = None" and "system_key el = Some k"
    and "member (Some sys) k = Inr None" and "present el"
  shows "written (fst (poll_system present sys)) el = Some (Lit ''--'')"
proof -
  have "fst (poll_system present sys) = concat (map fst
     [ assign present MetricCpu
         (and_then (member (Some sys) ''cpu_percent'') (\<lambda>x. fixed_or_dashes x 1)),
       assign present MetricRam
         (and_then (member (Some sys) ''memory_percent'') (\<lambda>x. fixed_or_dashes x 1)),
       assign present MetricRamUsed
         (and_then (member (Some sys) ''memory_used_gb'') (\<lambda>x. fixed_or_dashes x 2)),
       assign present MetricRamTotal
         (and_then (member (Some sys) ''memory_total_gb'') (\<lambda>x. fixed_or_dashes x 2)) ])"
    using assms(1) unfolding poll_system_def by (rule steps_complete)
  with assms(2-4) show ?thesis
    by (cases el)
       (simp_all add: written_append written_other,
        simp_all add: assign_def emit_def)
qed

lemma member_defined: "member (Some q) k = Inr x \<Longrightarrow> \<exists>y. member (Some q) k' = Inr y"
  by (cases q) auto

lemma sse_queue_absent:
  assumes "push_queue_key el = Some k" and "member (Some q) k = Inr None" and "present el"
  shows "written (fst (sse_queue present q)) el = Some (Shown (JNum 0))"
proof -
  obtain a b c where "member (Some q) ''total_transcriptions'' = Inr a"
    and "member (Some q) ''web_size'' = Inr b" and "member (Some q) ''gdrive_size'' = Inr c"
    using member_defined [OF assms(2)] by blast
  then have "snd (sse_queue present q) = None"
    by (simp add: sse_queue_def snd_seq assign_if_present_def assign_def emit_def skip_def)
  then have "fst (sse_queue present q) = concat (map fst
     [ assign_if_present present MetricTotalTranscriptions
         (and_then (member (Some q) ''total_transcriptions'') (\<lambda>x. Inr (value_or_zero x))),
       assign_if_present present MetricQueueWeb
         (and_then (member (Some q) ''web_size'') (\<lambda>x. Inr (value_or_zero x))),
       assign_if_present present MetricQueueGdrive
         (and_then (member (Some q) ''gdrive_size'') (\<lambda>x. Inr (value_or_zero x))) ])"
    unfolding sse_queue_def by (rule steps_complete)
  with assms show ?thesis
    by (cases el)
       (simp_all add: written_append written_other_if_present,
        simp_all add: assign_if_present_def assign_def emit_def)
qed

lemma poll_complete:
  assumes "snd (updateDashboardCards_body present (Response st (Json data))) = None"
  shows "fst (updateDashboardCards_resume present (Response st (Json data))) =
           Console Log
             # fst (poll_field present data ''total_transcriptions'' MetricTotalTranscriptions)
             @ fst (poll_field present data ''queue_web_size'' MetricQueueWeb)
             @ fst (poll_field present data ''queue_gdrive_size'' MetricQueueGdrive)
             @ fst (block data ''system'' (poll_system present))
             @ fst (bindv (member (Some data) ''metrics'') (updatePerformanceMetrics present))"
    and "snd (block data ''system'' (poll_system present)) = None"
    and "fst (updateDashboardCards_resume present (Response st (Json data))) =
           fst (updateDashboardCards_body present (Response st (Json data)))"
  using assms
  by (auto simp: updateDashboardCards_resume_def updateDashboardCards_body_def fst_try_catch
      fst_seq snd_seq emit_def skip_def throw_def split: option.splits if_splits)

lemma poll_system_present:
  assumes "snd (poll_system present sys) = None" and "system_key el = Some k"
  shows "present el"
proof (rule ccontr)
  assume "\<not> present el"
  then have "snd (assign present el rhs) = Some TypeError" for rhs
    by (simp add: assign_def throw_def)
  moreover have "snd (assign present el rhs) = None"
    if "rhs = and_then (member (Some sys) k) (\<lambda>x. fixed_or_dashes x (if el \<in> {MetricCpu, MetricRam} then 1 else 2))"
    for rhs
    using assms(2) that
    by (intro steps_complete_each [OF assms(1) [unfolded poll_system_def]]) (cases el; simp)
  ultimately show False by simp
qed

lemma written_metrics_other:
  "el \<notin> {ModelPerformanceList, AvgProcessTime} \<Longrightarrow>
     written (fst (bindv (member (Some data) ''metrics'') (updatePerformanceMetrics present))) el = None"
  by (rule only_written [OF only_bindv, OF only_updatePerformanceMetrics]) auto

lemma written_catch:
  "written (fst (updateDashboardCards_catch present e)) el \<in> {None, Some (Lit ''Erro'')}"
proof (cases "written (fst (updateDashboardCards_catch present e)) el")
  case None
  then show ?thesis by simp
next
  case (Some t)
  then have "SetText el t \<in> set (fst (updateDashboardCards_catch present e))"
    by (rule written_mem)
  then show ?thesis
    using only_updateDashboardCards_catch [of present e] Some by (auto simp: only_def)
qed

lemma only_resume:
  "only ({Console Log, Console Warn, Console Error} \<union> {SetText el t | el t. el \<noteq> SystemStatus})
     (updateDashboardCards_resume present r)"
proof -
  let ?S = "{Console Log, Console Warn, Console Error} \<union> {SetText el t | el t. el \<noteq> SystemStatus}"
  have body: "only ?S (updateDashboardCards_body present r)"
  proof (cases r)
    case NetworkFailure
    then show ?thesis by (simp add: updateDashboardCards_body_def only_throw)
  next
    case (Response st b)
    show ?thesis
    proof (cases b)
      case NotJson
      then show ?thesis by (simp add: Response updateDashboardCards_body_def only_throw)
    next
      case (Json data)
      show ?thesis
        unfolding Response Json
        by (rule only_mono[OF only_poll_body]) auto
    qed
  qed
  show ?thesis
    unfolding updateDashboardCards_resume_def
    apply (rule only_try_catch[OF body])
    apply (rule only_mono[OF only_updateDashboardCards_catch])
    apply auto
    done
qed

lemma fetches_start: "fetches (fst updateDashboardCards_start) = 1"
  by (simp add: updateDashboardCards_start_def fetches_def emit_def skip_def)

lemma fetches_resume: "fetches (fst (updateDashboardCards_resume present r)) = 0"
proof -
  have "\<not> is_fetch x" if "x \<in> set (fst (updateDashboardCards_resume present r))" for x
    using only_resume [of present r] that by (auto simp: only_def)
  then show ?thesis
    by (simp add: fetches_def filter_empty_conv)
qed

lemma poll_step_requests:
  "requests (poll_step present e s) = requests s + (if is_tick e then 1 else 0)"
  by (cases e) (simp_all add: fetches_start fetches_resume)

lemma poll_step_in_flight:
  "in_flight (poll_step present e s) = (if is_tick e then in_flight s + 1 else in_flight s - 1)"
  by (cases e) (simp_all add: fetches_start fetches_resume)

lemma run_poller_snoc:
  "run_poller present (es @ [e]) s = poll_step present e (run_poller present es s)"
  by (simp add: run_poller_def)

lemma run_poller_alternating:
  "in_flight (run_poller present (concat (replicate n [Tick, Settled r])) s) = in_flight s"
proof (induction n arbitrary: s)
  case 0
  then show ?case by (simp add: run_poller_def)
next
  case (Suc n)
  have "run_poller present (concat (replicate (Suc n) [Tick, Settled r])) s
      = run_poller present (concat (replicate n [Tick, Settled r]))
          (poll_step present (Settled r) (poll_step present Tick s))"
    by (simp add: run_poller_def)
  then show ?case
    by (simp add: Suc poll_step_in_flight del: poll_step.simps)
qed

lemma trim_Nil: "trim [] = []"
  by (simp add: trim_def)

lemma form_step_exclusive: "mutually_exclusive s \<Longrightarrow> mutually_exclusive (form_step g s)"
proof (cases g)
  case (ModulesArrive r)
  assume "mutually_exclusive s"
  then show ?thesis
    unfolding ModulesArrive
    by (cases "(r, s)" rule: courseSelect_change_resume.cases)
       (auto simp: mutually_exclusive_def exclusive_def)
qed (auto simp: mutually_exclusive_def exclusive_def newCourseInput_input_def
      newModuleInput_input_def courseSelect_change_def courseSelect_change_modules_def
      moduleSelect_change_def trim_Nil)

lemma upload_structured_accepted: "(\<exists>data. upload_structured r = Inr data) = accepted r"
proof (cases r)
  case NetworkFailure
  then show ?thesis by simp
next
  case (Response st b)
  show ?thesis
  proof (cases b)
    case NotJson
    then show ?thesis by (simp add: Response)
  next
    case (Json data)
    then show ?thesis
      by (cases "member (Some data) ''detail''") (auto simp: Response)
  qed
qed

lemma upload_structured_cases:
  obtains (sent) data where "upload_structured r = Inr data" "accepted r"
  | (failed) err where "upload_structured r = Inl err" "\<not> accepted r"
  using upload_structured_accepted [of r] by (cases "upload_structured r") auto

lemma posts_append: "posts (xs @ ys) = posts xs @ posts ys"
  by (induction xs rule: posts.induct) simp_all

lemma exchanges_append: "exchanges (xs @ ys) = exchanges xs @ exchanges ys"
  by (induction xs rule: exchanges.induct) simp_all

lemma feedbacks_append: "feedbacks (xs @ ys) = feedbacks xs @ feedbacks ys"
  by (induction xs rule: feedbacks.induct) simp_all

lemma upt_first: "[i..<Suc (i + n)] = i # [Suc i..<Suc (i + n)]"
  by (rule upt_conv_Cons) simp

lemma send_files_sent:
  "upload_structured (reply i) = Inr data \<Longrightarrow>
     send_files c m len reply i (f # fs) a k =
       (Post f c m # LogSent f # Feedback (Enviando (Suc k) len) Info
          # fst (send_files c m len reply (Suc i) fs a (Suc k)),
        snd (send_files c m len reply (Suc i) fs a (Suc k)))"
  by (simp split: prod.splits)

lemma send_files_failed:
  "upload_structured (reply i) = Inl err \<Longrightarrow>
     send_files c m len reply i (f # fs) a k =
       (Post f c m # LogFailed f err # Feedback (Erro_ao_enviar f err) Danger
          # fst (send_files c m len reply (Suc i) fs False k),
        snd (send_files c m len reply (Suc i) fs False k))"
  by (simp split: prod.splits)

lemma send_files_posts:
  "posts (fst (send_files c m len reply i fs a k)) = map (\<lambda>f. (f, c, m)) fs"
proof (induction fs arbitrary: i a k)
  case Nil
  then show ?case by simp
next
  case (Cons f fs)
  show ?case
    by (cases "reply i" rule: upload_structured_cases)
       (simp_all add: Cons send_files_sent send_files_failed del: send_files.simps)
qed

lemma send_files_exchanges:
  "exchanges (fst (send_files c m len reply i fs a k))
     = concat (map (\<lambda>(f, sent). [Request f, Outcome f sent])
         (zip fs (map (\<lambda>j. accepted (reply j)) [i..<i + length fs])))"
proof (induction fs arbitrary: i a k)
  case Nil
  then show ?case by simp
next
  case (Cons f fs)
  show ?case
    by (cases "reply i" rule: upload_structured_cases)
       (simp_all add: Cons send_files_sent send_files_failed upt_first
          del: send_files.simps upt_Suc)
qed

lemma send_files_count:
  "snd (snd (send_files c m len reply i fs a k))
     = k + length (filter (\<lambda>j. accepted (reply j)) [i..<i + length fs])"
proof (induction fs arbitrary: i a k)
  case Nil
  then show ?case by simp
next
  case (Cons f fs)
  show ?case
    by (cases "reply i" rule: upload_structured_cases)
       (simp_all add: Cons send_files_sent send_files_failed upt_first
          del: send_files.simps upt_Suc)
qed

lemma send_files_all:
  "fst (snd (send_files c m len reply i fs a k))
     = (a \<and> length (filter (\<lambda>j. accepted (reply j)) [i..<i + length fs]) = length fs)"
proof (induction fs arbitrary: i a k)
  case Nil
  then show ?case by simp
next
  case (Cons f fs)
  have le: "length (filter (\<lambda>j. accepted (reply j)) [Suc i..<Suc (i + length fs)]) \<le> length fs"
    using length_filter_le [of "\<lambda>j. accepted (reply j)" "[Suc i..<Suc (i + length fs)]"]
    by (simp del: upt_Suc)
  show ?case
    using le
    by (cases "reply i" rule: upload_structured_cases)
       (auto simp add: Cons send_files_sent send_files_failed upt_first
          simp del: send_files.simps upt_Suc)
qed

lemma upload_all_names: "map filename (upload_all reply i fs) = map file_name fs"
proof (induction fs arbitrary: i)
  case Nil
  then show ?case by simp
next
  case (Cons f fs)
  then show ?case
    by (cases "reply i")
       (auto simp: upload_error_def split: sum.splits)
qed

lemma upload_one_status:
  "status (upload_one f r) = (if resolved r then ''success'' else ''error'')"
proof (cases r)
  case (Resolved data)
  then show ?thesis
    by (cases data) (auto simp: upload_error_def split: sum.splits)
next
  case (Rejected d)
  then show ?thesis by (simp add: upload_error_def)
qed

lemma upload_all_status:
  "map status (upload_all reply i fs)
     = map (\<lambda>j. if resolved (reply j) then ''success'' else ''error'') [i..<i + length fs]"
proof (induction fs arbitrary: i)
  case Nil
  then show ?case by simp
next
  case (Cons f fs)
  show ?case
    by (simp add: Cons upt_first upload_one_status del: upt_Suc upload_one.simps)
qed

lemma length_upload_all: "length (upload_all reply i fs) = length fs"
  by (induction fs arbitrary: i) simp_all

lemma send_files_kinds:
  "map snd (feedbacks (fst (send_files c m len reply i fs a k)))
     = map (\<lambda>j. if accepted (reply j) then Info else Danger) [i..<i + length fs]"
proof (induction fs arbitrary: i a k)
  case Nil
  then show ?case by simp
next
  case (Cons f fs)
  show ?case
    by (cases "reply i" rule: upload_structured_cases)
       (simp_all add: Cons send_files_sent send_files_failed upt_first
          del: send_files.simps upt_Suc)
qed

lemma structured_submit_run:
  assumes "targetCourse s \<noteq> []" and "targetModule s \<noteq> []"
    and "fileInput_files s \<noteq> []" and "submitBtn s"
  shows "fst (structured_submit s reply c) =
           [PreventDefault, SubmitDisabled True, Feedback (Lit ''Enviando arquivos...'') Info]
           @ fst (send_files (targetCourse s) (targetModule s) (length (fileInput_files s)) reply 0
                    (fileInput_files s) True 0)
           @ (if length (filter (\<lambda>i. accepted (reply i)) [0..<length (fileInput_files s)])
                   = length (fileInput_files s)
              then [Feedback (enviados_com_sucesso
                       (length (filter (\<lambda>i. accepted (reply i)) [0..<length (fileInput_files s)]))
                       (targetCourse s) (targetModule s)) Success, LoadCourses]
                   @ (if c = targetCourse s then [DispatchChange] else [])
              else [Feedback (Alguns_arquivos
                       (length (fileInput_files s)
                          - length (filter (\<lambda>i. accepted (reply i)) [0..<length (fileInput_files s)]))
                       (length (fileInput_files s))) Danger])
           @ [SubmitDisabled False]"
proof -
  let ?r = "send_files (targetCourse s) (targetModule s) (length (fileInput_files s)) reply 0
              (fileInput_files s) True 0"
  have "fst (snd ?r)
      = (length (filter (\<lambda>i. accepted (reply i)) [0..<length (fileInput_files s)])
          = length (fileInput_files s))"
    using send_files_all [of "targetCourse s" "targetModule s" "length (fileInput_files s)" reply 0
        "fileInput_files s" True 0]
    by simp
  moreover have "snd (snd ?r)
      = length (filter (\<lambda>i. accepted (reply i)) [0..<length (fileInput_files s)])"
    using send_files_count [of "targetCourse s" "targetModule s" "length (fileInput_files s)" reply 0
        "fileInput_files s" True 0]
    by simp
  ultimately show ?thesis
    using assms
    by (cases ?r) (simp add: structured_submit_def Let_def)
qed

lemma handleUpload_results:
  "files st \<noteq> [] \<Longrightarrow> uploadResults (handleUpload st reply) = upload_all reply 0 (files st)"
  by (simp add: handleUpload_def handleUpload_try_def Let_def)













lemma written_singleton: "written [SetText el' t] el = (if el = el' then Some t else None)"
  by simp





















lemma upload_structured_message:
  "upload_structured r = Inl err \<Longrightarrow> message_of err = failure_message r"
proof (cases r)
  case NetworkFailure
  then show "upload_structured r = Inl err \<Longrightarrow> message_of err = failure_message r" by auto
next
  case (Response st b)
  show "upload_structured r = Inl err \<Longrightarrow> message_of err = failure_message r"
  proof (cases b)
    case NotJson
    then show "upload_structured r = Inl err \<Longrightarrow> message_of err = failure_message r"
      by (auto simp: Response)
  next
    case (Json data)
    then show "upload_structured r = Inl err \<Longrightarrow> message_of err = failure_message r"
      by (cases data) (auto simp: Response split: if_splits)
  qed
qed

lemma sent_upto_first:
  "i \<le> j \<Longrightarrow> sent_upto reply i j = (if accepted (reply i) then 1 else 0) + sent_upto reply (Suc i) j"
  by (simp add: sent_upto_def upt_conv_Cons del: upt_Suc)

lemma sent_upto_self: "sent_upto reply i i = (if accepted (reply i) then 1 else 0)"
  by (simp add: sent_upto_def)

lemma zip_upt_ge: "(f, j) \<in> set (zip fs [i..<n]) \<Longrightarrow> i \<le> j"
  by (auto dest: set_zip_rightD)

lemma send_files_feedbacks:
  "feedbacks (fst (send_files c m len reply i fs a k))
     = map (\<lambda>fj. if accepted (reply (snd fj))
                  then (progress_line (k + sent_upto reply i (snd fj)) len, Info)
                  else (failure_line (fst fj) (reply (snd fj)), Danger))
         (zip fs [i..<i + length fs])"
proof (induction fs arbitrary: i a k)
  case Nil
  then show ?case by simp
next
  case (Cons f fs)
  have tail: "map (\<lambda>fj. if accepted (reply (snd fj))
                  then (progress_line (k' + sent_upto reply (Suc i) (snd fj)) len, Info)
                  else (failure_line (fst fj) (reply (snd fj)), Danger))
         (zip fs [Suc i..<Suc (i + length fs)])
      = map (\<lambda>fj. if accepted (reply (snd fj))
                  then (progress_line (k + sent_upto reply i (snd fj)) len, Info)
                  else (failure_line (fst fj) (reply (snd fj)), Danger))
         (zip fs [Suc i..<Suc (i + length fs)])"
    if "k' = k + (if accepted (reply i) then 1 else 0)" for k'
  proof (rule map_cong [OF refl])
    fix fj
    assume "fj \<in> set (zip fs [Suc i..<Suc (i + length fs)])"
    then have "(fst fj, snd fj) \<in> set (zip fs [Suc i..<Suc (i + length fs)])"
      by simp
    then have "Suc i \<le> snd fj"
      by (rule zip_upt_ge)
    then have "sent_upto reply i (snd fj)
        = (if accepted (reply i) then 1 else 0) + sent_upto reply (Suc i) (snd fj)"
      by (intro sent_upto_first) simp
    with that
    show "(if accepted (reply (snd fj))
           then (progress_line (k' + sent_upto reply (Suc i) (snd fj)) len, Info)
           else (failure_line (fst fj) (reply (snd fj)), Danger))
        = (if accepted (reply (snd fj))
           then (progress_line (k + sent_upto reply i (snd fj)) len, Info)
           else (failure_line (fst fj) (reply (snd fj)), Danger))"
      by simp
  qed
  show ?case
  proof (cases "reply i" rule: upload_structured_cases)
    case (sent data)
    then show ?thesis
      using tail [of "Suc k"]
      by (simp add: Cons send_files_sent upt_first sent_upto_self Enviando_def progress_line_def
          del: send_files.simps upt_Suc)
  next
    case (failed err)
    then show ?thesis
      using tail [of k] upload_structured_message [OF failed(1)]
      by (simp add: Cons send_files_failed upt_first Erro_ao_enviar_def failure_line_def
          del: send_files.simps upt_Suc)
  qed
qed

lemma run_feedbacks:
  assumes "targetCourse s \<noteq> []" and "targetModule s \<noteq> []"
    and "fileInput_files s \<noteq> []" and "submitBtn s"
  shows "feedbacks (fst (structured_submit s reply c))
           = (Lit ''Enviando arquivos...'', Info)
             # map (result_line reply (length (fileInput_files s)))
                 (zip (fileInput_files s) [0..<length (fileInput_files s)])
             @ [aggregate_line (length (fileInput_files s))
                  (length (filter (\<lambda>i. accepted (reply i)) [0..<length (fileInput_files s)]))
                  (targetCourse s) (targetModule s)]"
  using send_files_feedbacks [of "targetCourse s" "targetModule s" "length (fileInput_files s)"
      reply 0 "fileInput_files s" True 0]
  by (simp add: structured_submit_run [OF assms] feedbacks_append result_line_def [abs_def]
      aggregate_line_def enviados_com_sucesso_def Alguns_arquivos_def)

subsection \<open>The claims\<close>




text \<open>
  Claim C2, as the code has it. For a submission that passes validation, the structured
  upload issues one request per file, in selection order and with the target course and
  module, whether or not earlier files failed, and each request only once the outcome of
  the one before is logged. Its feedback lines are the opening line, then one line per
  file, in order: after an accepted upload the count of files sent so far out of all,
  after a failed one the name of the file and the message of the failure; and last the
  aggregate line, which reads the count of files sent when all were sent and the count
  of failed files out of all otherwise. The React page builds one result per selected
  file, in order, with the same outcomes.
\<close>

theorem batch_upload:
  assumes "targetCourse s \<noteq> []" and "targetModule s \<noteq> []"
    and "fileInput_files s \<noteq> []" and "submitBtn s"
  shows "posts (fst (structured_submit s reply c))
           = map (\<lambda>f. (f, targetCourse s, targetModule s)) (fileInput_files s)
         \<and> exchanges (fst (structured_submit s reply c))
           = concat (map (\<lambda>(f, sent). [Request f, Outcome f sent])
               (zip (fileInput_files s)
                  (map (\<lambda>i. accepted (reply i)) [0..<length (fileInput_files s)])))
         \<and> feedbacks (fst (structured_submit s reply c))
           = (Lit ''Enviando arquivos...'', Info)
             # map (result_line reply (length (fileInput_files s)))
                 (zip (fileInput_files s) [0..<length (fileInput_files s)])
             @ [aggregate_line (length (fileInput_files s))
                  (length (filter (\<lambda>i. accepted (reply i)) [0..<length (fileInput_files s)]))
                  (targetCourse s) (targetModule s)]
         \<and> (files st \<noteq> [] \<longrightarrow>
              map filename (uploadResults (handleUpload st areply)) = map file_name (files st)
              \<and> map status (uploadResults (handleUpload st areply))
                = map (\<lambda>i. if resolved (areply i) then ''success'' else ''error'')
                    [0..<length (files st)])"
proof (intro conjI impI)
  note run = structured_submit_run [OF assms, of reply c]
  show "posts (fst (structured_submit s reply c))
      = map (\<lambda>f. (f, targetCourse s, targetModule s)) (fileInput_files s)"
    by (simp add: run posts_append send_files_posts)
  show "exchanges (fst (structured_submit s reply c))
      = concat (map (\<lambda>(f, sent). [Request f, Outcome f sent])
          (zip (fileInput_files s)
             (map (\<lambda>i. accepted (reply i)) [0..<length (fileInput_files s)])))"
    using send_files_exchanges [of "targetCourse s" "targetModule s" "length (fileInput_files s)"
        reply 0 "fileInput_files s" True 0]
    by (simp add: run exchanges_append)
  show "feedbacks (fst (structured_submit s reply c))
      = (Lit ''Enviando arquivos...'', Info)
        # map (result_line reply (length (fileInput_files s)))
            (zip (fileInput_files s) [0..<length (fileInput_files s)])
        @ [aggregate_line (length (fileInput_files s))
             (length (filter (\<lambda>i. accepted (reply i)) [0..<length (fileInput_files s)]))
             (targetCourse s) (targetModule s)]"
    by (rule run_feedbacks [OF assms])
  show "map filename (uploadResults (handleUpload st areply)) = map file_name (files st)"
    if "files st \<noteq> []"
    using that by (simp add: handleUpload_results upload_all_names)
  show "map status (uploadResults (handleUpload st areply))
      = map (\<lambda>i. if resolved (areply i) then ''success'' else ''error'') [0..<length (files st)]"
    if "files st \<noteq> []"
    using that upload_all_status [of areply 0 "files st"]
    by (simp add: handleUpload_results)
qed

text \<open>
  Five files of which the second and the fourth fail: five requests, outcomes
  success, failure, success, failure, success, the progress lines 1/5, 2/5 and 3/5 and
  the aggregate line for 2 of 5 failed.
\<close>

theorem batch_upload_witness:
  "targetCourse filled_form \<noteq> [] \<and> targetModule filled_form \<noteq> []
   \<and> fileInput_files filled_form \<noteq> [] \<and> submitBtn filled_form
   \<and> posts (fst (structured_submit filled_form fail_2_and_4 ''Curso A''))
       = [ (File ''a1.mp3'', ''Curso A'', ''M1''), (File ''a2.mp3'', ''Curso A'', ''M1''),
           (File ''a3.mp3'', ''Curso A'', ''M1''), (File ''a4.mp3'', ''Curso A'', ''M1''),
           (File ''a5.mp3'', ''Curso A'', ''M1'') ]
   \<and> exchanges (fst (structured_submit filled_form fail_2_and_4 ''Curso A''))
       = [ Request (File ''a1.mp3''), Outcome (File ''a1.mp3'') True,
           Request (File ''a2.mp3''), Outcome (File ''a2.mp3'') False,
           Request (File ''a3.mp3''), Outcome (File ''a3.mp3'') True,
           Request (File ''a4.mp3''), Outcome (File ''a4.mp3'') False,
           Request (File ''a5.mp3''), Outcome (File ''a5.mp3'') True ]
   \<and> feedbacks (fst (structured_submit filled_form fail_2_and_4 ''Curso A''))
       = [ (Lit ''Enviando arquivos...'', Info),
           (Lit ''Enviando: 1/5 arquivos...'', Info),
           (Template [Lit ''Erro ao enviar '', Lit ''a2.mp3'', Lit '': '', Shown (JStr ''falhou'')],
            Danger),
           (Lit ''Enviando: 2/5 arquivos...'', Info),
           (Template [Lit ''Erro ao enviar '', Lit ''a4.mp3'', Lit '': '', Shown (JStr ''falhou'')],
            Danger),
           (Lit ''Enviando: 3/5 arquivos...'', Info),
           (Lit (''Alguns arquivos (2 de 5) n'' @ [CHR 0xE3]
                 @ ''o puderam ser enviados. Veja os erros acima.''), Danger) ]
   \<and> files five_selected \<noteq> []
   \<and> map filename (uploadResults (handleUpload five_selected reject_2_and_4))
       = [''a1.mp3'', ''a2.mp3'', ''a3.mp3'', ''a4.mp3'', ''a5.mp3'']
   \<and> map status (uploadResults (handleUpload five_selected reject_2_and_4))
       = [''success'', ''error'', ''success'', ''error'', ''success'']"
proof -
  have h1: "targetCourse filled_form \<noteq> []" and h2: "targetModule filled_form \<noteq> []"
    and h3: "fileInput_files filled_form \<noteq> []" and h4: "submitBtn filled_form"
    and h5: "files five_selected \<noteq> []"
    by code_simp+
  have e1: "map (\<lambda>f. (f, targetCourse filled_form, targetModule filled_form))
        (fileInput_files filled_form)
      = [ (File ''a1.mp3'', ''Curso A'', ''M1''), (File ''a2.mp3'', ''Curso A'', ''M1''),
          (File ''a3.mp3'', ''Curso A'', ''M1''), (File ''a4.mp3'', ''Curso A'', ''M1''),
          (File ''a5.mp3'', ''Curso A'', ''M1'') ]"
    by code_simp
  have e2: "concat (map (\<lambda>(f, sent). [Request f, Outcome f sent])
        (zip (fileInput_files filled_form)
           (map (\<lambda>i. accepted (fail_2_and_4 i)) [0..<length (fileInput_files filled_form)])))
      = [ Request (File ''a1.mp3''), Outcome (File ''a1.mp3'') True,
          Request (File ''a2.mp3''), Outcome (File ''a2.mp3'') False,
          Request (File ''a3.mp3''), Outcome (File ''a3.mp3'') True,
          Request (File ''a4.mp3''), Outcome (File ''a4.mp3'') False,
          Request (File ''a5.mp3''), Outcome (File ''a5.mp3'') True ]"
    by code_simp
  have e3: "(Lit ''Enviando arquivos...'', Info)
        # map (result_line fail_2_and_4 (length (fileInput_files filled_form)))
            (zip (fileInput_files filled_form) [0..<length (fileInput_files filled_form)])
        @ [aggregate_line (length (fileInput_files filled_form))
             (length (filter (\<lambda>i. accepted (fail_2_and_4 i))
                [0..<length (fileInput_files filled_form)]))
             (targetCourse filled_form) (targetModule filled_form)]
      = [ (Lit ''Enviando arquivos...'', Info),
          (Lit ''Enviando: 1/5 arquivos...'', Info),
          (Template [Lit ''Erro ao enviar '', Lit ''a2.mp3'', Lit '': '', Shown (JStr ''falhou'')],
           Danger),
          (Lit ''Enviando: 2/5 arquivos...'', Info),
          (Template [Lit ''Erro ao enviar '', Lit ''a4.mp3'', Lit '': '', Shown (JStr ''falhou'')],
           Danger),
          (Lit ''Enviando: 3/5 arquivos...'', Info),
          (Lit (''Alguns arquivos (2 de 5) n'' @ [CHR 0xE3]
                @ ''o puderam ser enviados. Veja os erros acima.''), Danger) ]"
    by code_simp
  have e5: "map file_name (files five_selected)
      = [''a1.mp3'', ''a2.mp3'', ''a3.mp3'', ''a4.mp3'', ''a5.mp3'']"
    by code_simp
  have e6: "map (\<lambda>i. if resolved (reject_2_and_4 i) then ''success'' else ''error'')
        [0..<length (files five_selected)]
      = [''success'', ''error'', ''success'', ''error'', ''success'']"
    by code_simp
  from batch_upload [OF h1 h2 h3 h4, of fail_2_and_4 "''Curso A''" five_selected reject_2_and_4]
    h1 h2 h3 h4 h5
  show ?thesis
    unfolding e1 e2 e3 e5 e6 by simp
qed

text \<open>
  The aggregate the claim expects reads the files sent out of all, \<^verbatim>\<open>3/5\<close> when the
  second and the fourth of five files fail. In the code that is the progress line of
  the fifth file; the aggregate line, the last one, reads the failed files out of all,
  2 of 5, and when the five files are all sent it reads their count with no total.
\<close>

theorem batch_upload_counterexample:
  "map (\<lambda>i. accepted (fail_2_and_4 i)) [0..<5] = [True, False, True, False, True]
   \<and> feedbacks (fst (structured_submit filled_form fail_2_and_4 ''Curso A'')) ! 5
       = (Lit ''Enviando: 3/5 arquivos...'', Info)
   \<and> length (feedbacks (fst (structured_submit filled_form fail_2_and_4 ''Curso A''))) = 7
   \<and> last (feedbacks (fst (structured_submit filled_form fail_2_and_4 ''Curso A'')))
       = (Lit (''Alguns arquivos (2 de 5) n'' @ [CHR 0xE3]
               @ ''o puderam ser enviados. Veja os erros acima.''), Danger)
   \<and> fst (last (feedbacks (fst (structured_submit filled_form fail_2_and_4 ''Curso A''))))
       \<noteq> progress_line 3 5
   \<and> last (feedbacks (fst (structured_submit filled_form accept_all ''Curso A'')))
       = (Lit (''5 arquivo(s) enviado(s) com sucesso para '' @ [CHR 0x27] @ ''Curso A'' @ [CHR 0x27]
               @ '' -> '' @ [CHR 0x27] @ ''M1'' @ [CHR 0x27] @ ''!''), Success)"
  by code_simp

text \<open>
  Claim C3, as the code has it. Every call of \<^verbatim>\<open>updateDashboardCards\<close> by the interval
  timer issues a request, whether or not an earlier request is still in flight: no tick
  is skipped, the requests issued are as many as the ticks, and the requests in flight
  are at least the ticks minus the settled requests. When every request settles before
  the next tick, one request is in flight after each tick.
\<close>

theorem every_tick_fetches:
  "requests (run_poller present es s) = requests s + length (filter is_tick es)
   \<and> in_flight (run_poller present (es @ [Tick]) s) = in_flight (run_poller present es s) + 1
   \<and> in_flight s + length (filter is_tick es)
       \<le> in_flight (run_poller present es s) + length (filter (\<lambda>e. \<not> is_tick e) es)
   \<and> in_flight (run_poller present (concat (replicate n [Tick, Settled r]) @ [Tick]) idle) = 1"
proof (intro conjI)
  show "in_flight (run_poller present (concat (replicate n [Tick, Settled r]) @ [Tick]) idle) = 1"
    by (simp add: run_poller_snoc poll_step_in_flight run_poller_alternating idle_def
        del: poll_step.simps)
  show "requests (run_poller present es s) = requests s + length (filter is_tick es)"
    by (induction es rule: rev_induct) (simp_all add: run_poller_def poll_step_requests del: poll_step.simps)
  show "in_flight (run_poller present (es @ [Tick]) s) = in_flight (run_poller present es s) + 1"
    by (simp add: run_poller_snoc Let_def fetches_start)
  show "in_flight s + length (filter is_tick es)
      \<le> in_flight (run_poller present es s) + length (filter (\<lambda>e. \<not> is_tick e) es)"
  proof (induction es rule: rev_induct)
    case Nil
    then show ?case by (simp add: run_poller_def)
  next
    case (snoc e es)
    then show ?case
      by (auto simp add: run_poller_snoc poll_step_in_flight simp del: poll_step.simps)
  qed
qed

text \<open>Two ticks, one request settling, then a third tick.\<close>

theorem every_tick_fetches_witness:
  "requests (run_poller whole_page [Tick, Tick, Settled NetworkFailure] idle) = 2
   \<and> in_flight (run_poller whole_page ([Tick, Tick, Settled NetworkFailure] @ [Tick]) idle) = 2
   \<and> in_flight (run_poller whole_page [Tick, Tick, Settled NetworkFailure] idle) = 1
   \<and> in_flight (run_poller whole_page
         (concat (replicate 2 [Tick, Settled NetworkFailure]) @ [Tick]) idle) = 1"
proof -
  have "in_flight (run_poller whole_page [Tick, Tick, Settled NetworkFailure] idle) = 1"
    by (simp add: run_poller_def Let_def fetches_start fetches_resume idle_def)
  with every_tick_fetches [of whole_page "[Tick, Tick, Settled NetworkFailure]" idle 2 NetworkFailure]
  show ?thesis by (simp add: idle_def del: replicate.simps replicate_Suc)
qed

text \<open>
  With an interval of 100 and a request that takes 150, the events up to the time 100
  are the call at 0 and the tick at 100, before the first request settles: the tick at
  100 is not skipped and two requests are in flight.
\<close>

theorem one_in_flight_counterexample:
  "timeline 100 150 100 NetworkFailure = [Tick, Tick]
   \<and> in_flight (run_poller whole_page [Tick] idle) = 1
   \<and> requests (run_poller whole_page (timeline 100 150 100 NetworkFailure) idle) = 2
   \<and> \<not> in_flight (run_poller whole_page (timeline 100 150 100 NetworkFailure) idle) \<le> 1"
proof -
  have "timeline 100 150 100 NetworkFailure = [Tick, Tick]"
    by code_simp
  then show ?thesis
    by (simp add: run_poller_def Let_def fetches_start idle_def)
qed

text \<open>
  Claim C4, as the code has it. When a push message is handled to its end, a system
  field missing from its \<^verbatim>\<open>system\<close> block is shown as the placeholder \<^verbatim>\<open>'--'\<close> and a
  queue field missing from its \<^verbatim>\<open>queue\<close> block is shown as \<^verbatim>\<open>0\<close>. When a polled
  response is handled to its end, a system field missing from its \<^verbatim>\<open>system\<close> block is
  shown as \<^verbatim>\<open>'--'\<close>. A queue field missing from a polled response is never written as a
  number: the poll leaves the card alone or, when it fails, sets it to \<^verbatim>\<open>'Erro'\<close>.
\<close>

theorem absent_field_shown:
  "(member (Some ev) ''system'' = Inr (Some sys) \<and> truthy sys
      \<and> system_key el_s = Some k_s \<and> member (Some sys) k_s = Inr None \<and> present el_s
      \<and> snd (onmessage_body present (Parsed ev)) = None
      \<longrightarrow> render (fst (onmessage present (Parsed ev))) d el_s = Lit ''--'')
   \<and> (member (Some ev) ''queue'' = Inr (Some q) \<and> truthy q
      \<and> push_queue_key el_q = Some k_q \<and> member (Some q) k_q = Inr None \<and> present el_q
      \<and> snd (onmessage_body present (Parsed ev)) = None
      \<longrightarrow> render (fst (onmessage present (Parsed ev))) d el_q = Shown (JNum 0))
   \<and> (member (Some data) ''system'' = Inr (Some sys') \<and> truthy sys'
      \<and> system_key el_p = Some k_p \<and> member (Some sys') k_p = Inr None
      \<and> snd (updateDashboardCards_body present (Response st (Json data))) = None
      \<longrightarrow> render (fst (updateDashboardCards_resume present (Response st (Json data)))) d el_p
            = Lit ''--'')
   \<and> (poll_queue_key el_r = Some k_r \<and> member (Some data) k_r = Inr None
      \<longrightarrow> written (fst (updateDashboardCards_resume present (Response st (Json data)))) el_r
            \<in> {None, Some (Lit ''Erro'')})"
proof (intro conjI impI; (elim conjE)?)
  assume sys: "member (Some ev) ''system'' = Inr (Some sys)" "truthy sys"
    and key: "system_key el_s = Some k_s" "member (Some sys) k_s = Inr None" "present el_s"
    and complete: "snd (onmessage_body present (Parsed ev)) = None"
  have el: "el_s \<in> system_elems"
    using key(1) by (cases el_s) (simp_all add: system_elems_def)
  have "written (fst (block ev ''queue'' (sse_queue present))) el_s = None"
    by (rule only_written [OF only_block, OF only_sse_queue])
       (use el in \<open>auto simp: system_elems_def queue_elems_def\<close>)
  moreover have "written (fst (block ev ''workers'' (sse_workers present))) el_s = None"
    by (rule only_written [OF only_block, OF only_sse_workers])
       (use el in \<open>auto simp: system_elems_def\<close>)
  moreover have "written (fst (block ev ''system'' (sse_system present))) el_s = Some (Lit ''--'')"
    using onmessage_complete(2) [OF complete] sys key
    by (simp add: block_carried sse_system_absent)
  ultimately show "render (fst (onmessage present (Parsed ev))) d el_s = Lit ''--''"
    by (simp add: render_written onmessage_complete(1) [OF complete] written_append)
next
  assume q: "member (Some ev) ''queue'' = Inr (Some q)" "truthy q"
    and key: "push_queue_key el_q = Some k_q" "member (Some q) k_q = Inr None" "present el_q"
    and complete: "snd (onmessage_body present (Parsed ev)) = None"
  have el: "el_q \<in> queue_elems"
    using key(1) by (cases el_q) (simp_all add: queue_elems_def)
  have "written (fst (block ev ''workers'' (sse_workers present))) el_q = None"
    by (rule only_written [OF only_block, OF only_sse_workers])
       (use el in \<open>auto simp: queue_elems_def\<close>)
  moreover have "written (fst (block ev ''queue'' (sse_queue present))) el_q = Some (Shown (JNum 0))"
    using q key by (simp add: block_carried sse_queue_absent)
  ultimately show "render (fst (onmessage present (Parsed ev))) d el_q = Shown (JNum 0)"
    by (simp add: render_written onmessage_complete(1) [OF complete] written_append)
next
  assume sys: "member (Some data) ''system'' = Inr (Some sys')" "truthy sys'"
    and key: "system_key el_p = Some k_p" "member (Some sys') k_p = Inr None"
    and complete: "snd (updateDashboardCards_body present (Response st (Json data))) = None"
  have el: "el_p \<notin> {ModelPerformanceList, AvgProcessTime}"
    using key(1) by (cases el_p) simp_all
  have fin: "snd (poll_system present sys') = None"
    using poll_complete(2) [OF complete] sys by (simp add: block_carried)
  then have "written (fst (block data ''system'' (poll_system present))) el_p = Some (Lit ''--'')"
    using sys key poll_system_present [OF fin key(1)]
    by (simp add: block_carried poll_system_absent)
  then show "render (fst (updateDashboardCards_resume present (Response st (Json data)))) d el_p
      = Lit ''--''"
    by (simp add: render_written poll_complete(1) [OF complete] written_append
        written_metrics_other [OF el])
next
  assume key: "poll_queue_key el_r = Some k_r" "member (Some data) k_r = Inr None"
  have "\<not> poll_source data el_r"
    using key by (cases el_r) simp_all
  then have body: "written (fst (updateDashboardCards_body present (Response st (Json data)))) el_r = None"
    by (intro only_written [OF only_poll_body]) auto
  show "written (fst (updateDashboardCards_resume present (Response st (Json data)))) el_r
      \<in> {None, Some (Lit ''Erro'')}"
  proof (cases "snd (updateDashboardCards_body present (Response st (Json data)))")
    case None
    then show ?thesis
      using body by (simp add: updateDashboardCards_resume_def fst_try_catch)
  next
    case (Some e)
    then show ?thesis
      using body written_catch [of present e el_r]
      by (auto simp: updateDashboardCards_resume_def fst_try_catch written_append
          split: option.splits)
  qed
qed

text \<open>A push message and a polled response with empty blocks.\<close>

theorem absent_field_shown_witness:
  "member (Some event_empty_both) ''system'' = Inr (Some (JObj [])) \<and> truthy (JObj [])
   \<and> system_key MetricCpu = Some ''cpu_percent''
   \<and> member (Some (JObj [])) ''cpu_percent'' = Inr None \<and> whole_page MetricCpu
   \<and> snd (onmessage_body whole_page (Parsed event_empty_both)) = None
   \<and> render (fst (onmessage whole_page (Parsed event_empty_both))) loading_page MetricCpu
       = Lit ''--''
   \<and> member (Some event_empty_both) ''queue'' = Inr (Some (JObj []))
   \<and> push_queue_key MetricQueueWeb = Some ''web_size''
   \<and> member (Some (JObj [])) ''web_size'' = Inr None \<and> whole_page MetricQueueWeb
   \<and> render (fst (onmessage whole_page (Parsed event_empty_both))) loading_page MetricQueueWeb
       = Shown (JNum 0)
   \<and> member (Some event_empty_system) ''system'' = Inr (Some (JObj []))
   \<and> system_key MetricRam = Some ''memory_percent''
   \<and> member (Some (JObj [])) ''memory_percent'' = Inr None
   \<and> snd (updateDashboardCards_body whole_page (Response 200 (Json event_empty_system))) = None
   \<and> render (fst (updateDashboardCards_resume whole_page (Response 200 (Json event_empty_system))))
       loading_page MetricRam = Lit ''--''
   \<and> poll_queue_key MetricQueueGdrive = Some ''queue_gdrive_size''
   \<and> member (Some event_empty_system) ''queue_gdrive_size'' = Inr None
   \<and> written (fst (updateDashboardCards_resume whole_page (Response 200 (Json event_empty_system))))
       MetricQueueGdrive \<in> {None, Some (Lit ''Erro'')}"
proof -
  have h1: "member (Some event_empty_both) ''system'' = Inr (Some (JObj []))"
    and h2: "member (Some event_empty_both) ''queue'' = Inr (Some (JObj []))"
    by (simp_all add: event_empty_both_def)
  have h3: "member (Some event_empty_system) ''system'' = Inr (Some (JObj []))"
    and h4: "member (Some event_empty_system) ''queue_gdrive_size'' = Inr None"
    by (simp_all add: event_empty_system_def)
  have h5: "snd (onmessage_body whole_page (Parsed event_empty_both)) = None"
    by code_simp
  have h6: "snd (updateDashboardCards_body whole_page (Response 200 (Json event_empty_system))) = None"
    by code_simp
  have h7: "truthy (JObj [])" "whole_page MetricCpu" "whole_page MetricQueueWeb"
    "system_key MetricCpu = Some ''cpu_percent''" "push_queue_key MetricQueueWeb = Some ''web_size''"
    "system_key MetricRam = Some ''memory_percent''"
    "poll_queue_key MetricQueueGdrive = Some ''queue_gdrive_size''"
    "member (Some (JObj [])) ''cpu_percent'' = Inr None"
    "member (Some (JObj [])) ''web_size'' = Inr None"
    "member (Some (JObj [])) ''memory_percent'' = Inr None"
    by (simp_all add: whole_page_def)
  from absent_field_shown
         [where present = whole_page and ev = event_empty_both and sys = "JObj []"
            and q = "JObj []" and data = event_empty_system and sys' = "JObj []" and st = 200
            and d = loading_page and el_s = MetricCpu and k_s = "''cpu_percent''"
            and el_q = MetricQueueWeb and k_q = "''web_size''"
            and el_p = MetricRam and k_p = "''memory_percent''"
            and el_r = MetricQueueGdrive and k_r = "''queue_gdrive_size''"]
    h1 h2 h3 h4 h5 h6 h7
  show ?thesis by blast
qed

text \<open>
  A push message whose \<^verbatim>\<open>queue\<close> block has no total: the card of the total shows \<^verbatim>\<open>0\<close>.
\<close>

theorem absent_field_shown_counterexample:
  "member (Some event_empty_queue) ''queue'' = Inr (Some (JObj []))
   \<and> member (Some (JObj [])) ''total_transcriptions'' = Inr None
   \<and> render (fst (onmessage whole_page (Parsed event_empty_queue))) loading_page
       MetricTotalTranscriptions = Shown (JNum 0)"
proof -
  have "fst (onmessage whole_page (Parsed event_empty_queue)) =
      [ Console Log, SetText MetricTotalTranscriptions (Shown (JNum 0)),
        SetText MetricQueueWeb (Shown (JNum 0)), SetText MetricQueueGdrive (Shown (JNum 0)) ]"
    by code_simp
  moreover have "member (Some event_empty_queue) ''queue'' = Inr (Some (JObj []))"
    by (simp add: event_empty_queue_def)
  ultimately show ?thesis
    by (simp add: render_def)
qed

text \<open>
  Claim C5, as the code has it. A push message leaves untouched every element whose
  block (\<^verbatim>\<open>system\<close>, \<^verbatim>\<open>queue\<close>, \<^verbatim>\<open>workers\<close>) it does not carry, and a message that
  does not parse leaves every element untouched. A polled response handled to its end
  leaves untouched each queue card whose key it lacks, the system cards when it carries
  no \<^verbatim>\<open>system\<close> block and the performance elements when it carries no \<^verbatim>\<open>metrics\<close>
  block.
\<close>

theorem untouched_fields:
  "(\<not> push_source ev el \<longrightarrow> render (fst (onmessage present (Parsed ev))) d el = d el)
   \<and> render (fst (onmessage present Malformed)) d el = d el
   \<and> (\<not> poll_source data el
        \<and> snd (updateDashboardCards_body present (Response st (Json data))) = None
      \<longrightarrow> render (fst (updateDashboardCards_resume present (Response st (Json data)))) d el = d el)"
proof (intro conjI impI; (elim conjE)?)
  assume "\<not> push_source ev el"
  then have "written (fst (onmessage present (Parsed ev))) el = None"
    by (intro only_written [OF only_onmessage]) auto
  then show "render (fst (onmessage present (Parsed ev))) d el = d el"
    by (simp add: render_written)
next
  show "render (fst (onmessage present Malformed)) d el = d el"
    by (simp add: onmessage_malformed render_def)
next
  assume "\<not> poll_source data el"
    and complete: "snd (updateDashboardCards_body present (Response st (Json data))) = None"
  then have "written (fst (updateDashboardCards_body present (Response st (Json data)))) el = None"
    by (intro only_written [OF only_poll_body]) auto
  then show "render (fst (updateDashboardCards_resume present (Response st (Json data)))) d el = d el"
    by (simp add: render_written poll_complete(3) [OF complete])
qed

text \<open>The CPU card under a push message and a polled response that carry a total only.\<close>

theorem untouched_fields_witness:
  "\<not> push_source (queue_total 5) MetricCpu
   \<and> render (fst (onmessage whole_page (Parsed (queue_total 5)))) loading_page MetricCpu
       = loading_page MetricCpu
   \<and> render (fst (onmessage whole_page Malformed)) loading_page MetricCpu = loading_page MetricCpu
   \<and> \<not> poll_source (status_total 7) MetricCpu
   \<and> snd (updateDashboardCards_body whole_page (Response 200 (Json (status_total 7)))) = None
   \<and> render (fst (updateDashboardCards_resume whole_page (Response 200 (Json (status_total 7)))))
       loading_page MetricCpu = loading_page MetricCpu"
proof -
  have h1: "\<not> push_source (queue_total 5) MetricCpu"
    by (simp add: queue_total_def carries_def)
  have h2: "\<not> poll_source (status_total 7) MetricCpu"
    by (simp add: status_total_def carries_def)
  have h3: "snd (updateDashboardCards_body whole_page (Response 200 (Json (status_total 7)))) = None"
    by code_simp
  from untouched_fields
         [where present = whole_page and ev = "queue_total 5" and el = MetricCpu
            and d = loading_page and data = "status_total 7" and st = 200]
    h1 h2 h3
  show ?thesis by blast
qed

text \<open>
  The CPU card shows 12.5. A push message whose \<^verbatim>\<open>system\<close> block lacks the CPU field
  resets it to \<^verbatim>\<open>'--'\<close>, and a failed poll, which carries no field at all, sets it to
  \<^verbatim>\<open>'Erro'\<close>.
\<close>

theorem untouched_fields_counterexample:
  "display whole_page [Realtime (Parsed event_cpu)] loading_page MetricCpu = ToFixed (25 / 2) 1
   \<and> member (Some event_empty_system) ''system'' = Inr (Some (JObj []))
   \<and> member (Some (JObj [])) ''cpu_percent'' = Inr None
   \<and> display whole_page [Realtime (Parsed event_cpu), Realtime (Parsed event_empty_system)]
       loading_page MetricCpu = Lit ''--''
   \<and> display whole_page [Realtime (Parsed event_cpu), Polled (Response 500 NotJson)]
       loading_page MetricCpu = Lit ''Erro''"
proof -
  have 1: "fst (onmessage whole_page (Parsed event_cpu)) =
      [Console Log, SetText MetricCpu (ToFixed (25 / 2) 1), SetText MetricRam (Lit ''--''),
       SetText MetricRamUsed (Lit ''--''), SetText MetricRamTotal (Lit ''--'')]"
    by code_simp
  have 2: "fst (onmessage whole_page (Parsed event_empty_system)) =
      [Console Log, SetText MetricCpu (Lit ''--''), SetText MetricRam (Lit ''--''),
       SetText MetricRamUsed (Lit ''--''), SetText MetricRamTotal (Lit ''--'')]"
    by code_simp
  have 3: "fst (updateDashboardCards_resume whole_page (Response 500 NotJson)) =
      [Console Error, SetText MetricTotalTranscriptions (Lit ''Erro''),
       SetText MetricQueueWeb (Lit ''Erro''), SetText MetricQueueGdrive (Lit ''Erro''),
       SetText MetricCpu (Lit ''Erro''), SetText MetricRam (Lit ''Erro'')]"
    by code_simp
  have 4: "member (Some event_empty_system) ''system'' = Inr (Some (JObj []))"
    by (simp add: event_empty_system_def)
  show ?thesis
    by (simp add: display_def render_def 1 2 3 4)
qed

text \<open>
  Claim C6. The mutual exclusion of the existing choice and the typed new name, at the
  course level and at the module level, is kept by every keystroke and every dropdown
  change (and by the arrival of a course's modules). Typing a non-empty new course name
  empties the course dropdown, resets the module dropdown to its single placeholder
  option and disables it, and empties and disables the new-module field; choosing a
  course empties the new-course text; typing a non-empty new module name empties the
  module dropdown; choosing a module empties the new-module text.
\<close>

theorem mutual_exclusion:
  "(mutually_exclusive s \<longrightarrow> mutually_exclusive (fold form_step gs s))
   \<and> (trim t \<noteq> [] \<longrightarrow>
        courseSelect_value (form_step (TypeNewCourse t) s) = []
        \<and> moduleSelect_options (form_step (TypeNewCourse t) s) = [Selecione_um_Curso_Primeiro]
        \<and> moduleSelect_value (form_step (TypeNewCourse t) s) = []
        \<and> moduleSelect_disabled (form_step (TypeNewCourse t) s)
        \<and> newModuleInput_disabled (form_step (TypeNewCourse t) s)
        \<and> newModuleInput_value (form_step (TypeNewCourse t) s) = [])
   \<and> (v \<noteq> [] \<longrightarrow> newCourseInput_value (form_step (ChooseCourse v) s) = [])
   \<and> (trim t' \<noteq> [] \<longrightarrow> moduleSelect_value (form_step (TypeNewModule t') s) = [])
   \<and> (v' \<noteq> [] \<longrightarrow> newModuleInput_value (form_step (ChooseModule v') s) = [])"
proof (intro conjI impI)
  show "mutually_exclusive (fold form_step gs s)" if "mutually_exclusive s"
    using that by (induction gs arbitrary: s) (simp_all add: form_step_exclusive)
qed (simp_all add: newCourseInput_input_def newModuleInput_input_def courseSelect_change_def
      courseSelect_change_modules_def moduleSelect_change_def)

text \<open>A run of gestures from the empty form, and single gestures on a filled form.\<close>

theorem mutual_exclusion_witness:
  "mutually_exclusive empty_form
   \<and> mutually_exclusive
       (fold form_step
          [ChooseCourse ''Curso A'', ModulesArrive (ModulesList [''M1'', ''M2'']), ChooseModule ''M2'',
           TypeNewModule ''M3'', TypeNewCourse ''Curso B'', TypeNewCourse ''  '']
          empty_form)
   \<and> trim ''Curso B'' \<noteq> []
   \<and> courseSelect_value (form_step (TypeNewCourse ''Curso B'') filled_form) = []
   \<and> moduleSelect_options (form_step (TypeNewCourse ''Curso B'') filled_form)
       = [Selecione_um_Curso_Primeiro]
   \<and> moduleSelect_value (form_step (TypeNewCourse ''Curso B'') filled_form) = []
   \<and> moduleSelect_disabled (form_step (TypeNewCourse ''Curso B'') filled_form)
   \<and> newModuleInput_disabled (form_step (TypeNewCourse ''Curso B'') filled_form)
   \<and> newModuleInput_value (form_step (TypeNewCourse ''Curso B'') filled_form) = []
   \<and> newCourseInput_value (form_step (ChooseCourse ''Curso A'') filled_form) = []
   \<and> trim ''M3'' \<noteq> []
   \<and> moduleSelect_value (form_step (TypeNewModule ''M3'') filled_form) = []
   \<and> newModuleInput_value (form_step (ChooseModule ''M2'') filled_form) = []"
proof -
  have h1: "mutually_exclusive empty_form"
    by (simp add: mutually_exclusive_def exclusive_def empty_form_def)
  have h2: "trim ''Curso B'' \<noteq> []" "trim ''M3'' \<noteq> []"
    by (simp_all add: trim_def is_space_def)
  have h3: "''Curso A'' \<noteq> []" "''M2'' \<noteq> []"
    by simp_all
  from mutual_exclusion
         [where s = empty_form and t = "''Curso B''" and t' = "''M3''" and v = "''Curso A''"
            and v' = "''M2''"
            and gs = "[ChooseCourse ''Curso A'', ModulesArrive (ModulesList [''M1'', ''M2'']),
                      ChooseModule ''M2'', TypeNewModule ''M3'', TypeNewCourse ''Curso B'',
                      TypeNewCourse ''  '']"]
    mutual_exclusion
         [where s = filled_form and t = "''Curso B''" and t' = "''M3''" and v = "''Curso A''"
            and v' = "''M2''" and gs = "[]"]
    h1 h2 h3
  show ?thesis by blast
qed

text \<open>
  Claim C7. When the effective course is empty (no course selected and the typed new
  course empty once trimmed), or the effective module is empty, or no file is selected,
  the submit listener shows one warning and ends without any upload request, whatever
  the other inputs are.
\<close>

theorem validation_rejects:
  assumes "effective (courseSelect_value s) (newCourseInput_value s) = []
           \<or> effective (moduleSelect_value s) (newModuleInput_value s) = []
           \<or> fileInput_files s = []"
  shows "posts (fst (structured_submit s reply c)) = []
         \<and> (\<exists>m. fst (structured_submit s reply c) = [PreventDefault, Feedback m Warning])
         \<and> snd (structured_submit s reply c) = None"
proof -
  have "targetCourse s = [] \<or> targetModule s = [] \<or> fileInput_files s = []"
    using assms
    by (auto simp: effective_def targetCourse_def targetModule_def Let_def trim_Nil
        split: if_splits)
  then show ?thesis
    by (auto simp: structured_submit_def Let_def)
qed

text \<open>No course selected or typed, with a module typed and five files selected.\<close>

theorem validation_rejects_witness:
  "effective (courseSelect_value (empty_form\<lparr>newModuleInput_value := ''M1'', fileInput_files := five_files\<rparr>))
       (newCourseInput_value (empty_form\<lparr>newModuleInput_value := ''M1'', fileInput_files := five_files\<rparr>)) = []
   \<and> posts (fst (structured_submit
        (empty_form\<lparr>newModuleInput_value := ''M1'', fileInput_files := five_files\<rparr>) fail_2_and_4 [])) = []
   \<and> fst (structured_submit
        (empty_form\<lparr>newModuleInput_value := ''M1'', fileInput_files := five_files\<rparr>) fail_2_and_4 [])
       = [PreventDefault, Feedback selecione_um_curso Warning]
   \<and> snd (structured_submit
        (empty_form\<lparr>newModuleInput_value := ''M1'', fileInput_files := five_files\<rparr>) fail_2_and_4 [])
       = None"
proof -
  let ?s = "empty_form\<lparr>newModuleInput_value := ''M1'', fileInput_files := five_files\<rparr>"
  have h: "effective (courseSelect_value ?s) (newCourseInput_value ?s) = []"
    by (simp add: effective_def empty_form_def trim_def)
  have "fst (structured_submit ?s fail_2_and_4 []) = [PreventDefault, Feedback selecione_um_curso Warning]"
    by (simp add: structured_submit_def targetCourse_def empty_form_def trim_def)
  with validation_rejects [of ?s fail_2_and_4 "[]"] h
  show ?thesis by simp
qed

text \<open>
  Claim C8. A push message that does not parse is logged and dropped: the handler's only
  effect is one \<^verbatim>\<open>console.error\<close> and the page, status text included, is as before. No
  exception leaves \<^verbatim>\<open>onmessage\<close>, whatever the message. Neither a push message nor a
  settled poll ever writes the connection-error status; \<^verbatim>\<open>onerror\<close>, the handler of
  transport errors, writes it.
\<close>

theorem parse_failure_contained:
  "onmessage present Malformed = ([Console Error], None)
   \<and> render (fst (onmessage present Malformed)) d = d
   \<and> snd (onmessage present p) = None
   \<and> SetText SystemStatus Erro_na_conexao \<notin> set (fst (apply_update present u))
   \<and> (present SystemStatus \<longrightarrow> render (fst (onerror present)) d SystemStatus = Erro_na_conexao)"
proof (intro conjI impI)
  show "onmessage present Malformed = ([Console Error], None)"
    by (rule onmessage_malformed)
  show "render (fst (onmessage present Malformed)) d = d"
    by (simp add: onmessage_malformed render_def)
  show "snd (onmessage present p) = None"
    by (rule onmessage_returns)
  show "SetText SystemStatus Erro_na_conexao \<notin> set (fst (apply_update present u))"
  proof (cases u)
    case (Realtime q)
    then show ?thesis
      using only_onmessage_status [of present q]
      by (auto simp: only_def Erro_na_conexao_def)
  next
    case (Polled r)
    then show ?thesis
      using only_resume [of present r] by (auto simp: only_def)
  qed
  show "render (fst (onerror present)) d SystemStatus = Erro_na_conexao" if "present SystemStatus"
    using that
    by (simp add: onerror_def assign_if_present_def assign_def emit_def skip_def render_def)
qed

text \<open>On a page with every element.\<close>

theorem parse_failure_contained_witness:
  "onmessage whole_page Malformed = ([Console Error], None)
   \<and> render (fst (onmessage whole_page Malformed)) loading_page = loading_page
   \<and> snd (onmessage whole_page (Parsed event_null_cpu)) = None
   \<and> SetText SystemStatus Erro_na_conexao \<notin> set (fst (apply_update whole_page (Polled NetworkFailure)))
   \<and> whole_page SystemStatus
   \<and> render (fst (onerror whole_page)) loading_page SystemStatus = Erro_na_conexao"
proof -
  have "whole_page SystemStatus"
    by (simp add: whole_page_def)
  with parse_failure_contained
         [of whole_page loading_page "Parsed event_null_cpu" "Polled NetworkFailure"]
  show ?thesis by blast
qed

text \<open>
  Claim C9, as the code has it. When a push message carries worker data, the status
  element exists and the message is handled to its end (no statement of the \<^verbatim>\<open>system\<close>
  block before raises), the status shows \<^verbatim>\<open>'Operacional'\<close> if the \<^verbatim>\<open>web\<close> and the
  \<^verbatim>\<open>gdrive\<close> worker both report the status \<^verbatim>\<open>'running'\<close>, and \<^verbatim>\<open>'Problemas'\<close> in every
  other case.
\<close>

theorem overall_status:
  assumes "member (Some data) ''workers'' = Inr (Some w)" and "truthy w"
    and "present SystemStatus"
    and "snd (onmessage_body present (Parsed data)) = None"
  shows "render (fst (onmessage present (Parsed data))) d SystemStatus =
           (if reports_running w ''web'' \<and> reports_running w ''gdrive''
            then Lit ''Operacional'' else Lit ''Problemas'')"
  using assms
  by (simp add: render_written onmessage_complete(1) written_append block_carried
      sse_workers_written)

text \<open>A message with both workers running and nothing else.\<close>

theorem overall_status_witness:
  "member (Some event_workers) ''workers'' = Inr (Some both_running) \<and> truthy both_running
   \<and> whole_page SystemStatus
   \<and> snd (onmessage_body whole_page (Parsed event_workers)) = None
   \<and> render (fst (onmessage whole_page (Parsed event_workers))) loading_page SystemStatus
       = Lit ''Operacional''"
proof -
  have 1: "member (Some event_workers) ''workers'' = Inr (Some both_running)"
    by (simp add: event_workers_def)
  have 2: "truthy both_running"
    by (simp add: both_running_def)
  have 3: "whole_page SystemStatus"
    by (simp add: whole_page_def)
  have 4: "snd (onmessage_body whole_page (Parsed event_workers)) = None"
    by code_simp
  have 5: "reports_running both_running ''web'' \<and> reports_running both_running ''gdrive''"
    by (simp add: both_running_def)
  show ?thesis
    using overall_status [OF 1 2 3 4, of loading_page] 1 2 3 4 5 by simp
qed

text \<open>
  After a message with a stopped worker the status shows \<^verbatim>\<open>'Problemas'\<close>. In the next
  message both workers report \<^verbatim>\<open>'running'\<close>, but its CPU field is \<^verbatim>\<open>null\<close>:
  \<^verbatim>\<open>null.toFixed(1)\<close> raises, the \<^verbatim>\<open>catch\<close> logs it, and the status is not written.
\<close>

theorem overall_status_counterexample:
  "member (Some event_null_cpu) ''workers'' = Inr (Some both_running)
   \<and> reports_running both_running ''web'' \<and> reports_running both_running ''gdrive''
   \<and> display whole_page [Realtime (Parsed event_web_stopped), Realtime (Parsed event_null_cpu)]
       loading_page SystemStatus = Lit ''Problemas''"
proof -
  have 1: "fst (onmessage whole_page (Parsed event_web_stopped))
      = [Console Log, SetText SystemStatus (Lit ''Problemas'')]"
    by code_simp
  have 2: "fst (onmessage whole_page (Parsed event_null_cpu)) = [Console Log, Console Error]"
    by code_simp
  have 3: "member (Some event_null_cpu) ''workers'' = Inr (Some both_running)"
    by (simp add: event_null_cpu_def)
  have 4: "reports_running both_running ''web''" "reports_running both_running ''gdrive''"
    by (simp_all add: both_running_def)
  show ?thesis
    by (simp add: display_def render_def 1 2 3 4)
qed

text \<open>
  Claim C10. When \<^verbatim>\<open>handleUpload\<close> of the React page has ended, the list of selected
  files is empty, whatever the outcomes of the uploads; after a batch the page is no
  longer uploading and holds one result per file of the batch, in order.
\<close>

theorem files_reset:
  "files (handleUpload st reply) = []
   \<and> (files st \<noteq> [] \<longrightarrow>
        \<not> uploading (handleUpload st reply)
        \<and> length (uploadResults (handleUpload st reply)) = length (files st)
        \<and> map filename (uploadResults (handleUpload st reply)) = map file_name (files st))"
proof (intro conjI impI)
  show "files (handleUpload st reply) = []"
    by (simp add: handleUpload_def handleUpload_try_def Let_def)
  show "\<not> uploading (handleUpload st reply)" if "files st \<noteq> []"
    using that by (simp add: handleUpload_def handleUpload_try_def Let_def)
  show "length (uploadResults (handleUpload st reply)) = length (files st)" if "files st \<noteq> []"
    using that by (simp add: handleUpload_results length_upload_all)
  show "map filename (uploadResults (handleUpload st reply)) = map file_name (files st)"
    if "files st \<noteq> []"
    using that by (simp add: handleUpload_results upload_all_names)
qed

text \<open>Five files, every upload rejected.\<close>

theorem files_reset_witness:
  "files five_selected \<noteq> []
   \<and> files (handleUpload five_selected reject_all) = []
   \<and> \<not> uploading (handleUpload five_selected reject_all)
   \<and> length (uploadResults (handleUpload five_selected reject_all)) = 5
   \<and> map status (uploadResults (handleUpload five_selected reject_all))
       = [''error'', ''error'', ''error'', ''error'', ''error'']
   \<and> map filename (uploadResults (handleUpload five_selected reject_all))
       = [''a1.mp3'', ''a2.mp3'', ''a3.mp3'', ''a4.mp3'', ''a5.mp3'']"
proof -
  have h: "files five_selected \<noteq> []"
    by code_simp
  have e1: "length (files five_selected) = 5"
    and e2: "map file_name (files five_selected)
      = [''a1.mp3'', ''a2.mp3'', ''a3.mp3'', ''a4.mp3'', ''a5.mp3'']"
    by code_simp+
  have e3: "map status (uploadResults (handleUpload five_selected reject_all))
      = [''error'', ''error'', ''error'', ''error'', ''error'']"
    by code_simp
  from files_reset [of five_selected reject_all] h e3
  show ?thesis
    unfolding e1 e2 by simp
qed

end
